theory Spec2Isabelle
  imports Main "HOL-Library.AList"
begin

section \<open>Values and exceptions of the runtime\<close>

text \<open>
  The route handlers work on untyped JSON-derived values (\<^verbatim>\<open>any\<close>). A value is
  modelled by \<open>json\<close>: \<open>JUndefined\<close> is the result of reading an absent property,
  numbers are modelled by integers (the code never computes with payload numbers, it only
  tests them for zero and copies them), strings are lists of \<open>char\<close>, and an object is the
  list of its own enumerable properties in the order \<^verbatim>\<open>Object.keys\<close> enumerates them.
  Property reads consult own properties only (and \<^verbatim>\<open>length\<close> and indices of arrays
  and strings); members inherited from the runtime's prototypes are outside the model.
\<close>

datatype json =
    JUndefined
  | JNull
  | JBool bool
  | JNum int
  | JStr string
  | JArr "json list"
  | JObj "(string \<times> json) list"

datatype error_kind = TypeError | SyntaxError | PlainError | APIError

text \<open>
  A thrown value. \<open>status\<close>, \<open>response_status\<close> and \<open>statusCode_field\<close> are the three
  places where \<^verbatim>\<open>retryWithBackoff\<close> looks for a status code
  (\<^verbatim>\<open>error.status\<close>, \<^verbatim>\<open>error.response.status\<close>, \<^verbatim>\<open>error.statusCode\<close>).
  The message of a \<open>TypeError\<close> raised by the runtime is engine specific and is left empty.
\<close>

record js_error =
  kind :: error_kind
  message :: string
  status :: "int option"
  response_status :: "int option"
  statusCode_field :: "int option"

definition type_error :: js_error where
  "type_error = \<lparr>kind = TypeError, message = [], status = None,
                  response_status = None, statusCode_field = None\<rparr>"

definition plain_error :: "string \<Rightarrow> js_error" where
  "plain_error m = \<lparr>kind = PlainError, message = m, status = None,
                     response_status = None, statusCode_field = None\<rparr>"

definition status_error :: "string \<Rightarrow> int \<Rightarrow> js_error" where
  "status_error m s = \<lparr>kind = PlainError, message = m, status = Some s,
                        response_status = None, statusCode_field = None\<rparr>"

subsection \<open>Truthiness, coercion to string, property access\<close>

fun truthy :: "json \<Rightarrow> bool" where
  "truthy JUndefined = False"
| "truthy JNull = False"
| "truthy (JBool b) = b"
| "truthy (JNum n) = (n \<noteq> 0)"
| "truthy (JStr s) = (s \<noteq> [])"
| "truthy (JArr xs) = True"
| "truthy (JObj kvs) = True"

fun nullish :: "json \<Rightarrow> bool" where
  "nullish JUndefined = True"
| "nullish JNull = True"
| "nullish v = False"

fun is_array :: "json \<Rightarrow> bool" where
  "is_array (JArr xs) = True"
| "is_array v = False"

text \<open>\<^verbatim>\<open>a || b\<close> and \<^verbatim>\<open>a ?? b\<close>\<close>

definition js_or :: "json \<Rightarrow> json \<Rightarrow> json" where
  "js_or a b = (if truthy a then a else b)"

definition nullish_coalesce :: "json \<Rightarrow> json \<Rightarrow> json" where
  "nullish_coalesce a b = (if nullish a then b else a)"

definition digit_char :: "nat \<Rightarrow> char" where
  "digit_char d = ''0123456789'' ! (d mod 10)"

fun show_nat :: "nat \<Rightarrow> string" where
  "show_nat n = (if n < 10 then [digit_char n] else show_nat (n div 10) @ [digit_char n])"

declare show_nat.simps [simp del]

definition show_int :: "int \<Rightarrow> string" where
  "show_int i = (if i < 0 then CHR ''-'' # show_nat (nat (- i)) else show_nat (nat i))"

text \<open>\<^verbatim>\<open>Array.prototype.join\<close> on strings.\<close>

fun join :: "string \<Rightarrow> string list \<Rightarrow> string" where
  "join sep [] = []"
| "join sep [x] = x"
| "join sep (x # y # ys) = x @ sep @ join sep (y # ys)"

text \<open>
  \<^verbatim>\<open>String(v)\<close>, which is also how a value used as a property key or inside a
  template literal becomes a string. The integers of the model are printed in decimal, as
  JavaScript prints the integers below \<open>10\<^sup>2\<^sup>1\<close>.
\<close>

fun to_string :: "json \<Rightarrow> string" where
  "to_string JUndefined = ''undefined''"
| "to_string JNull = ''null''"
| "to_string (JBool b) = (if b then ''true'' else ''false'')"
| "to_string (JNum n) = show_int n"
| "to_string (JStr s) = s"
| "to_string (JArr xs) = join '','' (map (\<lambda>x. if nullish x then [] else to_string x) xs)"
| "to_string (JObj kvs) = ''[object Object]''"

text \<open>The index that a property key denotes in an array or string of length \<open>n\<close>.\<close>

definition array_index :: "string \<Rightarrow> nat \<Rightarrow> nat option" where
  "array_index k n = find (\<lambda>i. show_nat i = k) [0..<n]"

text \<open>
  \<open>get_prop v k\<close> is \<^verbatim>\<open>v[k]\<close>: a \<open>TypeError\<close> on \<^verbatim>\<open>null\<close> and
  \<^verbatim>\<open>undefined\<close>, \<open>JUndefined\<close> for a property that is absent.
\<close>

fun get_prop :: "json \<Rightarrow> string \<Rightarrow> js_error + json" where
  "get_prop JUndefined k = Inl type_error"
| "get_prop JNull k = Inl type_error"
| "get_prop (JObj kvs) k = Inr (case map_of kvs k of Some v \<Rightarrow> v | None \<Rightarrow> JUndefined)"
| "get_prop (JArr xs) k =
     Inr (if k = ''length'' then JNum (int (length xs))
          else case array_index k (length xs) of Some i \<Rightarrow> xs ! i | None \<Rightarrow> JUndefined)"
| "get_prop (JStr s) k =
     Inr (if k = ''length'' then JNum (int (length s))
          else case array_index k (length s) of Some i \<Rightarrow> JStr [s ! i] | None \<Rightarrow> JUndefined)"
| "get_prop (JBool b) k = Inr JUndefined"
| "get_prop (JNum n) k = Inr JUndefined"

text \<open>
  \<open>set_prop v k x\<close> is \<^verbatim>\<open>v[k] = x\<close> for the keys the route assigns
  (\<^verbatim>\<open>data\<close>, \<^verbatim>\<open>xAxisKey\<close>), in a module, hence in strict mode: a
  \<open>TypeError\<close> on \<^verbatim>\<open>null\<close>, \<^verbatim>\<open>undefined\<close> and on a primitive. An existing
  property keeps its place, a new one is appended. A named property stored on an array is
  not among the elements of the array and is lost when the array is serialised; the model
  leaves the array as it is.
\<close>

fun set_prop :: "json \<Rightarrow> string \<Rightarrow> json \<Rightarrow> js_error + json" where
  "set_prop (JObj kvs) k x = Inr (JObj (AList.update k x kvs))"
| "set_prop (JArr xs) k x = Inr (JArr xs)"
| "set_prop v k x = Inl type_error"

definition indexed :: "json list \<Rightarrow> (string \<times> json) list" where
  "indexed xs = zip (map show_nat [0..<length xs]) xs"

text \<open>
  The own enumerable properties that \<^verbatim>\<open>Object.entries\<close>, \<^verbatim>\<open>Object.keys\<close> and
  object spread (\<^verbatim>\<open>{...v}\<close>) enumerate. Spread accepts \<^verbatim>\<open>null\<close> and
  \<^verbatim>\<open>undefined\<close> (nothing is copied); \<^verbatim>\<open>Object.entries\<close> and
  \<^verbatim>\<open>Object.keys\<close> throw on them.
\<close>

fun own_entries :: "json \<Rightarrow> (string \<times> json) list" where
  "own_entries (JObj kvs) = kvs"
| "own_entries (JArr xs) = indexed xs"
| "own_entries (JStr s) = indexed (map (\<lambda>c. JStr [c]) s)"
| "own_entries v = []"

definition Object_entries :: "json \<Rightarrow> js_error + (string \<times> json) list" where
  "Object_entries v = (if nullish v then Inl type_error else Inr (own_entries v))"

definition Object_keys :: "json \<Rightarrow> js_error + string list" where
  "Object_keys v = (if nullish v then Inl type_error else Inr (map fst (own_entries v)))"

text \<open>\<^verbatim>\<open>Array.prototype.map\<close> with a callback that may throw.\<close>

fun map_throwing :: "('a \<Rightarrow> js_error + 'b) \<Rightarrow> 'a list \<Rightarrow> js_error + 'b list" where
  "map_throwing f [] = Inr []"
| "map_throwing f (x # xs) =
     (case f x of Inl e \<Rightarrow> Inl e
      | Inr y \<Rightarrow> (case map_throwing f xs of Inl e \<Rightarrow> Inl e | Inr ys \<Rightarrow> Inr (y # ys)))"


subsection \<open>Keys chosen by the payload\<close>

text \<open>
  The members that every object inherits from \<^verbatim>\<open>Object.prototype\<close>. \<open>get_prop\<close> does
  not return them. None of the keys that the route reads by name (\<^verbatim>\<open>data\<close>,
  \<^verbatim>\<open>chartType\<close>, \<^verbatim>\<open>config\<close>, \<^verbatim>\<open>chartConfig\<close>, \<^verbatim>\<open>xAxisKey\<close>,
  \<^verbatim>\<open>segment\<close>, \<^verbatim>\<open>category\<close>, \<^verbatim>\<open>name\<close>, \<^verbatim>\<open>value\<close>,
  \<^verbatim>\<open>success\<close>, \<^verbatim>\<open>content\<close>, \<^verbatim>\<open>citations\<close>) is among them. The pie reshape
  also reads two keys that the payload chooses, \<^verbatim>\<open>config.xAxisKey\<close> and the first key
  of \<^verbatim>\<open>chartConfig\<close>; what is proved about these reads is proved for records that are
  objects and for keys that are strings and no inherited name.
\<close>

definition object_prototype_names :: "string list" where
  "object_prototype_names =
     [''constructor'', ''hasOwnProperty'', ''isPrototypeOf'', ''propertyIsEnumerable'',
      ''toLocaleString'', ''toString'', ''valueOf'', ''__proto__'', ''__defineGetter__'',
      ''__defineSetter__'', ''__lookupGetter__'', ''__lookupSetter__'']"

definition inherited_name :: "string \<Rightarrow> bool" where
  "inherited_name k = (k \<in> set object_prototype_names)"


fun is_record :: "json \<Rightarrow> bool" where
  "is_record (JObj kvs) = True"
| "is_record v = False"


section \<open>Retry executor\<close>

text \<open>
  An asynchronous operation is a function of the state of the outside world that returns
  either the thrown error or the value, and the new state.
\<close>

type_synonym ('w, 'a) operation = "'w \<Rightarrow> (js_error + 'a) \<times> 'w"

text \<open>\<^verbatim>\<open>a || b\<close> on optional numbers: \<open>a\<close> when it is truthy, else \<open>b\<close>.\<close>

definition num_or :: "int option \<Rightarrow> int option \<Rightarrow> int option" where
  "num_or a b = (case a of Some n \<Rightarrow> if n \<noteq> 0 then a else b | None \<Rightarrow> b)"

text \<open>\<^verbatim>\<open>error?.status || error?.response?.status || error?.statusCode\<close>\<close>

definition statusCode :: "js_error \<Rightarrow> int option" where
  "statusCode error = num_or (status error) (num_or (response_status error) (statusCode_field error))"

text \<open>
  \<^verbatim>\<open>statusCode && statusCode >= 400 && statusCode < 500 && statusCode !== 429\<close>
\<close>

definition terminal_client_error :: "int option \<Rightarrow> bool" where
  "terminal_client_error sc =
     (case sc of None \<Rightarrow> False | Some c \<Rightarrow> c \<noteq> 0 \<and> 400 \<le> c \<and> c < 500 \<and> c \<noteq> 429)"

text \<open>
  \<^verbatim>\<open>retryableErrors && statusCode && !retryableErrors.includes(statusCode)\<close>
\<close>

definition not_retryable :: "int list option \<Rightarrow> int option \<Rightarrow> bool" where
  "not_retryable retryableErrors sc =
     (case retryableErrors of None \<Rightarrow> False
      | Some cs \<Rightarrow> (case sc of None \<Rightarrow> False | Some c \<Rightarrow> c \<noteq> 0 \<and> c \<notin> set cs))"

text \<open>
  The \<^verbatim>\<open>for\<close> loop of \<^verbatim>\<open>retryWithBackoff\<close> in the finance route, from
  \<open>attempt\<close> on. The wait between two attempts
  (\<^verbatim>\<open>Math.min(initialDelay * 2^attempt + Math.random() * 1000, maxDelay)\<close> milliseconds)
  changes neither the result nor the calls that are made and is not part of the model.
\<close>

function retry_loop ::
  "('w, 'a) operation \<Rightarrow> int \<Rightarrow> int list option \<Rightarrow> int \<Rightarrow> js_error option \<Rightarrow> 'w
     \<Rightarrow> (js_error + 'a) \<times> 'w" where
  "retry_loop fn maxRetries retryableErrors attempt lastError w =
     (if attempt < maxRetries then
        (case fn w of
           (Inr v, w') \<Rightarrow> (Inr v, w')
         | (Inl error, w') \<Rightarrow>
             if terminal_client_error (statusCode error) then (Inl error, w')
             else if not_retryable retryableErrors (statusCode error) then (Inl error, w')
             else if attempt = maxRetries - 1 then (Inl error, w')
             else retry_loop fn maxRetries retryableErrors (attempt + 1) (Some error) w')
      else (Inl (case lastError of Some e \<Rightarrow> e
                 | None \<Rightarrow> plain_error ''Max retries exceeded''), w))"
  by pat_completeness auto
termination
  by (relation "measure (\<lambda>(fn, maxRetries, retryableErrors, attempt, lastError, w).
                   nat (maxRetries - attempt))") auto

declare retry_loop.simps [simp del]

definition retryWithBackoff ::
  "('w, 'a) operation \<Rightarrow> int \<Rightarrow> int \<Rightarrow> int \<Rightarrow> int list option \<Rightarrow> 'w
     \<Rightarrow> (js_error + 'a) \<times> 'w" where
  "retryWithBackoff fn maxRetries initialDelay maxDelay retryableErrors w =
     retry_loop fn maxRetries retryableErrors 0 None w"

text \<open>
  The executor of the live-search route: it reads \<^verbatim>\<open>error?.status\<close> only and has
  no list of retryable codes.
\<close>

function retry_loop_perplexity ::
  "('w, 'a) operation \<Rightarrow> int \<Rightarrow> int \<Rightarrow> js_error option \<Rightarrow> 'w \<Rightarrow> (js_error + 'a) \<times> 'w" where
  "retry_loop_perplexity fn maxRetries attempt lastError w =
     (if attempt < maxRetries then
        (case fn w of
           (Inr v, w') \<Rightarrow> (Inr v, w')
         | (Inl error, w') \<Rightarrow>
             if terminal_client_error (status error) then (Inl error, w')
             else if attempt = maxRetries - 1 then (Inl error, w')
             else retry_loop_perplexity fn maxRetries (attempt + 1) (Some error) w')
      else (Inl (case lastError of Some e \<Rightarrow> e
                 | None \<Rightarrow> plain_error ''Max retries exceeded''), w))"
  by pat_completeness auto
termination
  by (relation "measure (\<lambda>(fn, maxRetries, attempt, lastError, w).
                   nat (maxRetries - attempt))") auto

declare retry_loop_perplexity.simps [simp del]

definition retryWithBackoff_perplexity ::
  "('w, 'a) operation \<Rightarrow> int \<Rightarrow> int \<Rightarrow> int \<Rightarrow> 'w \<Rightarrow> (js_error + 'a) \<times> 'w" where
  "retryWithBackoff_perplexity fn maxRetries initialDelay maxDelay w =
     retry_loop_perplexity fn maxRetries 0 None w"

text \<open>
  Counting the underlying calls: the operation run on a world paired with a counter that
  every call increments.
\<close>

definition counted :: "('w, 'a) operation \<Rightarrow> (nat \<times> 'w, 'a) operation" where
  "counted fn = (\<lambda>(n, w). case fn w of (r, w') \<Rightarrow> (r, (Suc n, w')))"

text \<open>
  An operation that answers from a script: the world is the number of calls made so far.
\<close>

definition scripted :: "(js_error + 'a) list \<Rightarrow> (nat, 'a) operation" where
  "scripted rs = (\<lambda>n. (if n < length rs then rs ! n
                        else Inl (plain_error ''script exhausted''), Suc n))"

section \<open>Tool-output normaliser\<close>

text \<open>
  \<^verbatim>\<open>processToolResponse\<close> of the finance route (the copy with the retry executor).
  \<^verbatim>\<open>chartData\<close> is the very object \<^verbatim>\<open>toolUseContent.input\<close>, and the function
  assigns to its properties; each step below therefore returns the new state of that
  object, or the thrown error, in which case the step has changed nothing.
  \<^verbatim>\<open>JSON.parse\<close> is a parameter: \<open>None\<close> stands for its \<open>SyntaxError\<close>.
\<close>

definition invalid_json_error :: js_error where
  "invalid_json_error = plain_error ''Invalid chart data structure: data is not valid JSON''"

definition invalid_structure_error :: js_error where
  "invalid_structure_error = plain_error ''Invalid chart data structure''"

text \<open>
  The \<^verbatim>\<open>try\<close> block that parses \<^verbatim>\<open>data\<close> when it is a non-empty string;
  whatever it throws is replaced by \<open>invalid_json_error\<close>.
\<close>

definition parse_twice :: "(string \<Rightarrow> json option) \<Rightarrow> json \<Rightarrow> string \<Rightarrow> js_error + json" where
  "parse_twice JSON_parse chartData originalDataString =
     (case JSON_parse originalDataString of
        None \<Rightarrow> Inl invalid_json_error
      | Some parsed \<Rightarrow>
          (case (case parsed of JStr s \<Rightarrow> JSON_parse s | _ \<Rightarrow> Some parsed) of
             None \<Rightarrow> Inl invalid_json_error
           | Some parsed' \<Rightarrow>
               (case set_prop chartData ''data'' parsed' of
                  Inl e \<Rightarrow> Inl invalid_json_error
                | Inr chartData' \<Rightarrow> Inr chartData')))"

definition parse_data :: "(string \<Rightarrow> json option) \<Rightarrow> json \<Rightarrow> js_error + json" where
  "parse_data JSON_parse chartData =
     (case get_prop chartData ''data'' of
        Inl e \<Rightarrow> Inl e
      | Inr d \<Rightarrow>
          (case d of
             JStr originalDataString \<Rightarrow>
               if truthy d then parse_twice JSON_parse chartData originalDataString
               else Inr chartData
           | _ \<Rightarrow> Inr chartData))"

text \<open>
  \<^verbatim>\<open>!chartData.chartType || !chartData.data || !Array.isArray(chartData.data)\<close>
\<close>

definition check_structure :: "json \<Rightarrow> js_error + unit" where
  "check_structure chartData =
     (case get_prop chartData ''chartType'' of
        Inl e \<Rightarrow> Inl e
      | Inr chartType \<Rightarrow>
          (case get_prop chartData ''data'' of
             Inl e \<Rightarrow> Inl e
           | Inr d \<Rightarrow>
               if \<not> truthy chartType \<or> \<not> truthy d \<or> \<not> is_array d
               then Inl invalid_structure_error else Inr ()))"

text \<open>
  \<^verbatim>\<open>Object.keys(chartData.chartConfig)[0]\<close>; reading index 0 of an empty array gives
  \<^verbatim>\<open>undefined\<close>.
\<close>

definition first_config_key :: "json \<Rightarrow> js_error + json" where
  "first_config_key chartData =
     (case get_prop chartData ''chartConfig'' of
        Inl e \<Rightarrow> Inl e
      | Inr chartConfig \<Rightarrow>
          (case Object_keys chartConfig of
             Inl e \<Rightarrow> Inl e
           | Inr ks \<Rightarrow> Inr (case ks of [] \<Rightarrow> JUndefined | k # _ \<Rightarrow> JStr k)))"

text \<open>\<^verbatim>\<open>(chartData.config as any).xAxisKey || "segment"\<close>\<close>

definition segment_key :: "json \<Rightarrow> js_error + json" where
  "segment_key chartData =
     (case get_prop chartData ''config'' of
        Inl e \<Rightarrow> Inl e
      | Inr config \<Rightarrow>
          (case get_prop config ''xAxisKey'' of
             Inl e \<Rightarrow> Inl e
           | Inr x \<Rightarrow> Inr (js_or x (JStr ''segment''))))"

text \<open>
  The object literal that the callback returns, once \<open>valueKey\<close> and \<open>segmentKey\<close> are
  known: \<^verbatim>\<open>item[segmentKey] || item.segment || item.category || item.name\<close> and
  \<^verbatim>\<open>item[valueKey] ?? item.value\<close>.
\<close>

definition pie_record :: "json \<Rightarrow> json \<Rightarrow> json \<Rightarrow> js_error + json" where
  "pie_record valueKey segmentKey item =
     (case get_prop item (to_string segmentKey) of
        Inl e \<Rightarrow> Inl e
      | Inr by_key \<Rightarrow>
     (case get_prop item ''segment'' of
        Inl e \<Rightarrow> Inl e
      | Inr by_segment \<Rightarrow>
     (case get_prop item ''category'' of
        Inl e \<Rightarrow> Inl e
      | Inr by_category \<Rightarrow>
     (case get_prop item ''name'' of
        Inl e \<Rightarrow> Inl e
      | Inr by_name \<Rightarrow>
     (case get_prop item (to_string valueKey) of
        Inl e \<Rightarrow> Inl e
      | Inr by_value_key \<Rightarrow>
     (case get_prop item ''value'' of
        Inl e \<Rightarrow> Inl e
      | Inr by_value \<Rightarrow>
          Inr (JObj [(''segment'', js_or (js_or (js_or by_key by_segment) by_category) by_name),
                     (''value'', nullish_coalesce by_value_key by_value)])))))))"

text \<open>The callback of \<^verbatim>\<open>chartData.data.map\<close>.\<close>

definition pie_item :: "json \<Rightarrow> json \<Rightarrow> js_error + json" where
  "pie_item chartData item =
     (case first_config_key chartData of
        Inl e \<Rightarrow> Inl e
      | Inr valueKey \<Rightarrow>
          (case segment_key chartData of
             Inl e \<Rightarrow> Inl e
           | Inr segmentKey \<Rightarrow> pie_record valueKey segmentKey item))"

text \<open>\<^verbatim>\<open>chartData.data = chartData.data.map(...)\<close>\<close>

definition pie_data :: "json \<Rightarrow> js_error + json" where
  "pie_data chartData =
     (case get_prop chartData ''data'' of
        Inl e \<Rightarrow> Inl e
      | Inr d \<Rightarrow>
          (case d of
             JArr items \<Rightarrow>
               (case map_throwing (pie_item chartData) items of
                  Inl e \<Rightarrow> Inl e
                | Inr items' \<Rightarrow> set_prop chartData ''data'' (JArr items'))
           | _ \<Rightarrow> Inl type_error))"

text \<open>
  \<^verbatim>\<open>(chartData.config as any).xAxisKey = "segment"\<close>: the assignment changes the
  object held in \<^verbatim>\<open>chartData.config\<close>.
\<close>

definition pie_axis :: "json \<Rightarrow> js_error + json" where
  "pie_axis chartData =
     (case get_prop chartData ''config'' of
        Inl e \<Rightarrow> Inl e
      | Inr config \<Rightarrow>
          (case set_prop config ''xAxisKey'' (JStr ''segment'') of
             Inl e \<Rightarrow> Inl e
           | Inr config' \<Rightarrow> set_prop chartData ''config'' config'))"

text \<open>\<^verbatim>\<open>`hsl(var(--chart-${index + 1}))`\<close>\<close>

definition chart_color :: "nat \<Rightarrow> json" where
  "chart_color index = JStr (''hsl(var(--chart-'' @ show_nat (index + 1) @ ''))'')"

text \<open>
  The \<^verbatim>\<open>reduce\<close> over \<^verbatim>\<open>Object.entries(chartData.chartConfig)\<close>, from entry number
  \<open>index\<close> on, with accumulator \<open>acc\<close>:
  \<^verbatim>\<open>{...acc, [key]: {...config, color: ...}}\<close>.
\<close>

fun assign_colors :: "(string \<times> json) list \<Rightarrow> nat \<Rightarrow> (string \<times> json) list \<Rightarrow> (string \<times> json) list" where
  "assign_colors [] index acc = acc"
| "assign_colors ((key, config) # rest) index acc =
     assign_colors rest (index + 1)
       (AList.update key (JObj (AList.update ''color'' (chart_color index) (own_entries config))) acc)"

text \<open>
  The last step: \<^verbatim>\<open>{...chartData, chartConfig: processedChartConfig}\<close>. It builds a
  new object and assigns nothing to \<^verbatim>\<open>chartData\<close>.
\<close>

definition with_colors :: "json \<Rightarrow> js_error + json" where
  "with_colors chartData =
     (case get_prop chartData ''chartConfig'' of
        Inl e \<Rightarrow> Inl e
      | Inr chartConfig \<Rightarrow>
          (case Object_entries chartConfig of
             Inl e \<Rightarrow> Inl e
           | Inr entries \<Rightarrow>
               Inr (JObj (AList.update ''chartConfig'' (JObj (assign_colors entries 0 []))
                            (own_entries chartData)))))"

text \<open>
  The steps after the parsing of \<^verbatim>\<open>data\<close>, shared by both copies of the route. The
  result pairs what the function returns or throws with the state in which it leaves
  \<^verbatim>\<open>toolUseContent.input\<close>.
\<close>

definition reshape_and_color :: "json \<Rightarrow> (js_error + json) \<times> json" where
  "reshape_and_color chartData =
     (case check_structure chartData of
        Inl e \<Rightarrow> (Inl e, chartData)
      | Inr u \<Rightarrow>
          if get_prop chartData ''chartType'' = Inr (JStr ''pie'') then
            (case pie_data chartData of
               Inl e \<Rightarrow> (Inl e, chartData)
             | Inr chartData' \<Rightarrow>
                 (case pie_axis chartData' of
                    Inl e \<Rightarrow> (Inl e, chartData')
                  | Inr chartData'' \<Rightarrow> (with_colors chartData'', chartData'')))
          else (with_colors chartData, chartData))"

definition processToolResponse ::
  "(string \<Rightarrow> json option) \<Rightarrow> json \<Rightarrow> (js_error + json) \<times> json" where
  "processToolResponse JSON_parse input =
     (case parse_data JSON_parse input of
        Inl e \<Rightarrow> (Inl e, input)
      | Inr chartData \<Rightarrow> reshape_and_color chartData)"

text \<open>
  \<^verbatim>\<open>processToolResponse\<close> of \<^verbatim>\<open>src/app/api/finance/route.ts\<close>: the same function
  without the parsing of a \<^verbatim>\<open>data\<close> string. There the first property read is
  \<^verbatim>\<open>chartData.chartType\<close>.
\<close>

definition processToolResponse_app :: "json \<Rightarrow> (js_error + json) \<times> json" where
  "processToolResponse_app input = reshape_and_color input"


section \<open>From the model's response to the HTTP response\<close>

text \<open>
  A content block of the model's response: free text, a tool invocation, or a block of
  another type.
\<close>

record tool_use =
  tool_id :: string
  tool_name :: string
  tool_input :: json

datatype block = TextBlock string | ToolUseBlock tool_use | OtherBlock string

fun is_text_block :: "block \<Rightarrow> bool" where
  "is_text_block (TextBlock t) = True"
| "is_text_block b = False"

fun is_tool_use_block :: "block \<Rightarrow> bool" where
  "is_tool_use_block (ToolUseBlock t) = True"
| "is_tool_use_block b = False"

fun block_text :: "block \<Rightarrow> string" where
  "block_text (TextBlock t) = t"
| "block_text b = []"

fun tool_uses :: "block list \<Rightarrow> tool_use list" where
  "tool_uses [] = []"
| "tool_uses (ToolUseBlock t # bs) = t # tool_uses bs"
| "tool_uses (b # bs) = tool_uses bs"

record success_body =
  content :: string
  hasToolUse :: bool
  toolUse :: "tool_use option"
  chartData :: "json option"

record failure_body =
  error :: string
  details :: "string option"
  code :: "int option"

datatype response_body = Success success_body | Failure failure_body

record http_response =
  http_status :: int
  http_body :: response_body

text \<open>
  \<^verbatim>\<open>allToolUseBlocks.find((c) => c.name === "generate_graph_data") || allToolUseBlocks[0] || null\<close>
\<close>

definition toolUseContent :: "block list \<Rightarrow> tool_use option" where
  "toolUseContent response_content =
     (let allToolUseBlocks = tool_uses response_content in
      case find (\<lambda>c. tool_name c = ''generate_graph_data'') allToolUseBlocks of
        Some c \<Rightarrow> Some c
      | None \<Rightarrow> (case allToolUseBlocks of [] \<Rightarrow> None | c # cs \<Rightarrow> Some c))"

text \<open>
  \<^verbatim>\<open>textContents.map((c) => c.text || "").join("\n\n")\<close>
\<close>

definition fullTextContent :: "block list \<Rightarrow> string" where
  "fullTextContent response_content =
     join [CHR 0x0A, CHR 0x0A] (map block_text (filter is_text_block response_content))"

text \<open>
  The end of \<^verbatim>\<open>POST\<close> in the copy with the retry executor, from the response of
  the model on: the \<^verbatim>\<open>try\<close>/\<^verbatim>\<open>catch\<close> around \<^verbatim>\<open>processToolResponse\<close> leaves
  \<^verbatim>\<open>processedChartData\<close> \<^verbatim>\<open>null\<close> when it throws, and \<^verbatim>\<open>toolUse.input\<close> is
  \<^verbatim>\<open>toolUseContent.input\<close> as \<^verbatim>\<open>processToolResponse\<close> has left it. Every value
  of type \<open>json\<close> can be serialised, so the fallback for a failed
  \<^verbatim>\<open>JSON.stringify(responseData)\<close> is never taken.
\<close>

definition answer :: "(string \<Rightarrow> json option) \<Rightarrow> block list \<Rightarrow> http_response" where
  "answer JSON_parse response_content =
     (case toolUseContent response_content of
        None \<Rightarrow>
          \<lparr>http_status = 200,
           http_body = Success \<lparr>content = fullTextContent response_content,
                                hasToolUse = list_ex is_tool_use_block response_content,
                                toolUse = None, chartData = None\<rparr>\<rparr>
      | Some t \<Rightarrow>
          (case processToolResponse JSON_parse (tool_input t) of
             (r, input') \<Rightarrow>
               \<lparr>http_status = 200,
                http_body = Success \<lparr>content = fullTextContent response_content,
                                     hasToolUse = list_ex is_tool_use_block response_content,
                                     toolUse = Some (t\<lparr>tool_input := input'\<rparr>),
                                     chartData = (case r of Inl e \<Rightarrow> None | Inr v \<Rightarrow> Some v)\<rparr>\<rparr>))"

text \<open>
  The \<^verbatim>\<open>catch\<close> at the end of \<^verbatim>\<open>POST\<close>, the same in both copies. An
  \<^verbatim>\<open>Anthropic.APIError\<close> is answered with its own status (a response built without a
  status has status 200), anything else with status 500 and the message of the error.
\<close>

definition error_response :: "js_error \<Rightarrow> http_response" where
  "error_response e =
     (if kind e = APIError then
        \<lparr>http_status = (case status e of Some s \<Rightarrow> s | None \<Rightarrow> 200),
         http_body = Failure \<lparr>error = ''API Error'', details = Some (message e), code = status e\<rparr>\<rparr>
      else
        \<lparr>http_status = 500,
         http_body = Failure \<lparr>error = message e, details = None, code = None\<rparr>\<rparr>)"

text \<open>
  The end of \<^verbatim>\<open>POST\<close> in \<^verbatim>\<open>src/app/api/finance/route.ts\<close>:
  \<^verbatim>\<open>response.content.find((c) => c.type === "tool_use")\<close>,
  \<^verbatim>\<open>response.content.find((c) => c.type === "text")\<close>, and a call of
  \<^verbatim>\<open>processToolResponse\<close> that is not guarded: what it throws reaches the
  \<^verbatim>\<open>catch\<close> at the end of \<^verbatim>\<open>POST\<close>. Before that, the route logs
  \<^verbatim>\<open>response.content[0].type\<close>, a read that throws a \<open>TypeError\<close> when the
  response of the model has no block.
\<close>

definition toolUseContent_app :: "block list \<Rightarrow> tool_use option" where
  "toolUseContent_app response_content =
     (case tool_uses response_content of [] \<Rightarrow> None | c # cs \<Rightarrow> Some c)"

definition textContent_app :: "block list \<Rightarrow> string" where
  "textContent_app response_content =
     (case find is_text_block response_content of None \<Rightarrow> [] | Some c \<Rightarrow> block_text c)"

definition answer_app :: "block list \<Rightarrow> http_response" where
  "answer_app response_content =
     (if response_content = [] then error_response type_error
      else case toolUseContent_app response_content of
        None \<Rightarrow>
          \<lparr>http_status = 200,
           http_body = Success \<lparr>content = textContent_app response_content,
                                hasToolUse = list_ex is_tool_use_block response_content,
                                toolUse = None, chartData = None\<rparr>\<rparr>
      | Some t \<Rightarrow>
          (case processToolResponse_app (tool_input t) of
             (Inl e, input') \<Rightarrow> error_response e
           | (Inr v, input') \<Rightarrow>
               \<lparr>http_status = 200,
                http_body = Success \<lparr>content = textContent_app response_content,
                                     hasToolUse = list_ex is_tool_use_block response_content,
                                     toolUse = Some (t\<lparr>tool_input := input'\<rparr>),
                                     chartData = Some v\<rparr>\<rparr>))"

section \<open>Request, collaborators and context fusion\<close>

text \<open>
  The content of a conversation turn is a string or a sequence of parts. The text of a
  text part has the type of a content, because the route itself stores the content of the
  last turn there when a file is attached.
\<close>

datatype msg_content = Str string | Parts "part list"
  and part = TextPart msg_content | ImagePart string string

record message =
  role :: string
  message_content :: msg_content

text \<open>
  The identifiers of \<^verbatim>\<open>icfMapping\<close> are opaque strings that the route only tests for
  truthiness and interpolates; the empty string stands for an absent one.
\<close>

record icf_mapping =
  firm_name :: string
  client_id :: string
  investment_banker_id :: string
  firm_account_name :: string

record file_data =
  base64 :: string
  mediaType :: string
  isText :: bool
  fileName :: "string option"

text \<open>
  The parsed body of the request. \<open>messages = None\<close> stands for a \<^verbatim>\<open>messages\<close> that
  is missing or not an array, the empty \<open>model\<close> for a missing one.
\<close>

record request =
  messages :: "message list option"
  fileData :: "file_data option"
  model :: string
  includeLiveData :: bool
  icfMapping :: "icf_mapping option"

text \<open>What \<^verbatim>\<open>fetch\<close> resolves to: the status, and the body read as text and as JSON
  (\<open>None\<close> where reading it fails).\<close>

record http_reply =
  reply_status :: int
  reply_text :: "string option"
  reply_json :: "json option"

text \<open>
  The collaborators of the route and the library functions it calls, over a world \<open>'w\<close>:
  \<^verbatim>\<open>JSON.parse\<close> (\<open>None\<close> for a \<open>SyntaxError\<close>),
  \<^verbatim>\<open>JSON.stringify(v, null, 2)\<close>,
  \<^verbatim>\<open>decodeURIComponent(escape(atob(s)))\<close> (\<open>None\<close> when it throws), the request to the
  portfolio service (arguments in the order of \<^verbatim>\<open>fetchCombinedCSVsByFirm\<close>), the
  request to the live-search endpoint with its query, and
  \<^verbatim>\<open>anthropic.messages.create\<close> with the model and the conversation (the system
  prompt and the tools are constants of the route).
\<close>

record 'w env =
  JSON_parse :: "string \<Rightarrow> json option"
  JSON_stringify :: "json \<Rightarrow> string"
  decode_text :: "string \<Rightarrow> string option"
  fetch_portfolio :: "string \<Rightarrow> string \<Rightarrow> string \<Rightarrow> string \<Rightarrow> ('w, http_reply) operation"
  fetch_perplexity :: "string \<Rightarrow> ('w, http_reply) operation"
  messages_create :: "string \<Rightarrow> message list \<Rightarrow> ('w, block list) operation"

definition nl :: string where
  "nl = [CHR 0x0A]"

definition syntax_error :: js_error where
  "syntax_error = \<lparr>kind = SyntaxError, message = [], status = None,
                    response_status = None, statusCode_field = None\<rparr>"

definition bad_request :: "string \<Rightarrow> http_response" where
  "bad_request m = \<lparr>http_status = 400,
                     http_body = Failure \<lparr>error = m, details = None, code = None\<rparr>\<rparr>"

definition reply_ok :: "http_reply \<Rightarrow> bool" where
  "reply_ok r = (200 \<le> reply_status r \<and> reply_status r \<le> 299)"

definition retryable_codes :: "int list" where
  "retryable_codes = [429, 500, 502, 503, 504]"

subsection \<open>File attachment\<close>

text \<open>
  \<^verbatim>\<open>messages.map((msg) => ({role: msg.role, content: msg.content}))\<close>
\<close>

definition anthropicMessages :: "message list \<Rightarrow> message list" where
  "anthropicMessages ms = map (\<lambda>msg. \<lparr>role = role msg, message_content = message_content msg\<rparr>) ms"

text \<open>
  \<^verbatim>\<open>anthropicMessages[anthropicMessages.length - 1] = m\<close>, for a conversation that is
  not empty.
\<close>

definition replace_last :: "message \<Rightarrow> message list \<Rightarrow> message list" where
  "replace_last m ms = butlast ms @ [m]"

text \<open>
  The block \<^verbatim>\<open>if (fileData) { ... }\<close>. Reading \<^verbatim>\<open>messages[messages.length - 1].content\<close>
  in an empty conversation throws inside the \<^verbatim>\<open>try\<close>.
\<close>

definition attach_file ::
  "'w env \<Rightarrow> file_data \<Rightarrow> message list \<Rightarrow> message list \<Rightarrow> http_response + message list" where
  "attach_file env fd ms ams =
     (if base64 fd = [] then Inl (bad_request ''No file data'')
      else if isText fd then
        (case decode_text env (base64 fd) of
           None \<Rightarrow> Inl (bad_request ''Failed to process file content'')
         | Some textContent \<Rightarrow>
             if ms = [] then Inl (bad_request ''Failed to process file content'')
             else Inr (replace_last
                    \<lparr>role = ''user'',
                     message_content = Parts
                       [TextPart (Str (''File contents of ''
                                       @ (case fileName fd of None \<Rightarrow> ''undefined'' | Some n \<Rightarrow> n)
                                       @ '':'' @ nl @ nl @ textContent)),
                        TextPart (message_content (last ms))]\<rparr> ams))
      else if take 6 (mediaType fd) = ''image/'' then
        (if ms = [] then Inl (bad_request ''Failed to process file content'')
         else Inr (replace_last
                \<lparr>role = ''user'',
                 message_content = Parts
                   [ImagePart (mediaType fd) (base64 fd),
                    TextPart (message_content (last ms))]\<rparr> ams))
      else Inr ams)"

definition attached :: "'w env \<Rightarrow> request \<Rightarrow> message list \<Rightarrow> http_response + message list" where
  "attached env req ms =
     (case fileData req of
        None \<Rightarrow> Inr (anthropicMessages ms)
      | Some fd \<Rightarrow> attach_file env fd ms (anthropicMessages ms))"

subsection \<open>Portfolio data (step 1a)\<close>

text \<open>The operation that \<^verbatim>\<open>fetchCombinedCSVsByFirm\<close> hands to the retry executor.\<close>

definition portfolio_attempt ::
  "'w env \<Rightarrow> string \<Rightarrow> string \<Rightarrow> string \<Rightarrow> string \<Rightarrow> ('w, json) operation" where
  "portfolio_attempt env clientId investmentBankerId firmName portfolioType =
     (\<lambda>w. case fetch_portfolio env clientId investmentBankerId firmName portfolioType w of
        (Inl e, w') \<Rightarrow> (Inl e, w')
      | (Inr reply, w') \<Rightarrow>
          if \<not> reply_ok reply then
            (Inl (status_error
                   (''Failed to fetch portfolio data: '' @ show_int (reply_status reply) @ '' - ''
                    @ (case reply_text reply of None \<Rightarrow> ''Unknown error'' | Some t \<Rightarrow> t))
                   (reply_status reply)), w')
          else (case reply_json reply of
                  None \<Rightarrow> (Inl syntax_error, w')
                | Some j \<Rightarrow> (Inr j, w')))"

definition fetchCombinedCSVsByFirm ::
  "'w env \<Rightarrow> string \<Rightarrow> string \<Rightarrow> string \<Rightarrow> string \<Rightarrow> ('w, json) operation" where
  "fetchCombinedCSVsByFirm env clientId investmentBankerId firmName portfolioType =
     retryWithBackoff (portfolio_attempt env clientId investmentBankerId firmName portfolioType)
       3 1000 10000 (Some retryable_codes)"

text \<open>
  \<^verbatim>\<open>stockData\<close> after step 1a: \<open>JNull\<close> unless the identifiers are complete and the
  fetch succeeds.
\<close>

definition fetch_stockData :: "'w env \<Rightarrow> request \<Rightarrow> 'w \<Rightarrow> json \<times> 'w" where
  "fetch_stockData env req w =
     (if includeLiveData req then
        (case icfMapping req of
           None \<Rightarrow> (JNull, w)
         | Some icfData \<Rightarrow>
             if firm_name icfData \<noteq> [] \<and> client_id icfData \<noteq> []
                \<and> investment_banker_id icfData \<noteq> [] then
               (case fetchCombinedCSVsByFirm env (client_id icfData) (investment_banker_id icfData)
                       (firm_name icfData) ''MASTER_PROPOSED'' w of
                  (Inl e, w') \<Rightarrow> (JNull, w')
                | (Inr d, w') \<Rightarrow> (d, w'))
             else (JNull, w))
      else (JNull, w))"

subsection \<open>Live search (step 1b)\<close>

fun content_text :: "msg_content \<Rightarrow> string" where
  "content_text (Str s) = s"
| "content_text (Parts ps) = join '','' (map (\<lambda>p. ''[object Object]'') ps)"

fun is_text_part :: "part \<Rightarrow> bool" where
  "is_text_part (TextPart c) = True"
| "is_text_part (ImagePart m d) = False"

fun part_text :: "part \<Rightarrow> string" where
  "part_text (TextPart c) = content_text c"
| "part_text (ImagePart m d) = []"

text \<open>
  \<^verbatim>\<open>extractedUserQuery\<close>: the content of the last turn when it is a string, the texts
  of its text parts joined by a space when it is an array, and the empty string when there
  is no turn.
\<close>

definition extractedUserQuery :: "message list \<Rightarrow> string" where
  "extractedUserQuery ms =
     (if ms = [] then []
      else case message_content (last ms) of
             Str s \<Rightarrow> s
           | Parts ps \<Rightarrow> join '' '' (map part_text (filter is_text_part ps)))"

text \<open>
  \<^verbatim>\<open>!s.trim()\<close>: the string has white space only (the white space among the
  characters of \<open>char\<close>).
\<close>

definition blank :: "string \<Rightarrow> bool" where
  "blank s = list_all (\<lambda>c. c \<in> set [CHR 0x09, CHR 0x0A, CHR 0x0B, CHR 0x0C, CHR 0x0D, CHR 0x20, CHR 0xA0]) s"

definition perplexity_attempt :: "'w env \<Rightarrow> string \<Rightarrow> ('w, json) operation" where
  "perplexity_attempt env query =
     (\<lambda>w. case fetch_perplexity env query w of
        (Inl e, w') \<Rightarrow> (Inl e, w')
      | (Inr reply, w') \<Rightarrow>
          if \<not> reply_ok reply then
            (Inl (status_error
                   (''Perplexity API call failed: '' @ show_int (reply_status reply) @ '' - ''
                    @ (case reply_text reply of None \<Rightarrow> ''Unknown error'' | Some t \<Rightarrow> t))
                   (reply_status reply)), w')
          else (case reply_json reply of
                  None \<Rightarrow> (Inl syntax_error, w')
                | Some j \<Rightarrow> (Inr j, w')))"

record perplexity_data =
  pd_content :: json
  pd_citations :: json
  citationCount :: json

text \<open>
  What the \<^verbatim>\<open>try\<close> block does with \<^verbatim>\<open>responseData\<close>; a \<open>TypeError\<close> on a
  \<^verbatim>\<open>null\<close> response is caught and leaves \<^verbatim>\<open>perplexityData\<close> \<^verbatim>\<open>null\<close>.
\<close>

definition perplexityData_of :: "json \<Rightarrow> perplexity_data option" where
  "perplexityData_of responseData =
     (case get_prop responseData ''success'' of
        Inl e \<Rightarrow> None
      | Inr success \<Rightarrow>
     (case get_prop responseData ''content'' of
        Inl e \<Rightarrow> None
      | Inr c \<Rightarrow>
     (case get_prop responseData ''citations'' of
        Inl e \<Rightarrow> None
      | Inr citations \<Rightarrow>
          if truthy success \<and> truthy c then
            Some \<lparr>pd_content = c,
                  pd_citations = js_or citations (JArr []),
                  citationCount =
                    js_or (case get_prop citations ''length'' of Inl e \<Rightarrow> JUndefined | Inr n \<Rightarrow> n)
                          (JNum 0)\<rparr>
          else None)))"

definition fetch_perplexityData ::
  "'w env \<Rightarrow> request \<Rightarrow> message list \<Rightarrow> 'w \<Rightarrow> perplexity_data option \<times> 'w" where
  "fetch_perplexityData env req ms w =
     (if includeLiveData req \<and> ms \<noteq> [] \<and> \<not> blank (extractedUserQuery ms) then
        (case retryWithBackoff (perplexity_attempt env (extractedUserQuery ms))
                2 2000 8000 (Some retryable_codes) w of
           (Inl e, w') \<Rightarrow> (None, w')
         | (Inr responseData, w') \<Rightarrow> (perplexityData_of responseData, w'))
      else (None, w))"

subsection \<open>The enhanced prompt (step 2)\<close>

text \<open>\<^verbatim>\<open>typeof v === 'object'\<close>\<close>

fun typeof_object :: "json \<Rightarrow> bool" where
  "typeof_object (JObj kvs) = True"
| "typeof_object (JArr xs) = True"
| "typeof_object JNull = True"
| "typeof_object v = False"

text \<open>The serialisation of the portfolio blob, before it is cut.\<close>

definition stockData_text :: "'w env \<Rightarrow> json \<Rightarrow> string" where
  "stockData_text env stockData =
     (if typeof_object stockData then JSON_stringify env stockData else to_string stockData)"

definition stockDataSummary :: "'w env \<Rightarrow> json \<Rightarrow> string" where
  "stockDataSummary env stockData = take 3000 (stockData_text env stockData)"

definition portfolio_heading :: "icf_mapping option \<Rightarrow> string" where
  "portfolio_heading icfData =
     ''---'' @ nl @ ''**STOCK/PORTFOLIO DATA (Current Holdings & Performance for ''
     @ (case icfData of None \<Rightarrow> ''Account''
        | Some i \<Rightarrow> if firm_account_name i \<noteq> [] then firm_account_name i else ''Account'')
     @ '' at ''
     @ (case icfData of None \<Rightarrow> ''Firm''
        | Some i \<Rightarrow> if firm_name i \<noteq> [] then firm_name i else ''Firm'')
     @ ''):**'' @ nl"

definition portfolio_section :: "'w env \<Rightarrow> icf_mapping option \<Rightarrow> json \<Rightarrow> string" where
  "portfolio_section env icfData stockData =
     (if truthy stockData then
        portfolio_heading icfData @ stockDataSummary env stockData @ nl @ ''---'' @ nl @ nl
      else [])"

definition search_section :: "perplexity_data option \<Rightarrow> string" where
  "search_section perplexityData =
     (case perplexityData of
        None \<Rightarrow> []
      | Some pd \<Rightarrow>
          if truthy (pd_content pd) then
            ''---'' @ nl @ ''**LIVE DATA FROM WEB SEARCH (Latest Market Information):**'' @ nl
            @ to_string (pd_content pd) @ nl @ nl
            @ ''**Sources:** '' @ to_string (citationCount pd) @ '' citation(s) found'' @ nl
            @ ''---'' @ nl @ nl
          else [])"

definition instructions :: "json \<Rightarrow> perplexity_data option \<Rightarrow> string list" where
  "instructions stockData perplexityData =
     (if truthy stockData then [''- The current stock/portfolio data provided above''] else [])
     @ (if perplexityData \<noteq> None then [''- The latest live market data from web search''] else [])
     @ (if truthy stockData \<and> perplexityData \<noteq> None
        then [''- Combine both sources for comprehensive analysis''] else [])"

definition enhancedPrompt ::
  "'w env \<Rightarrow> icf_mapping option \<Rightarrow> string \<Rightarrow> json \<Rightarrow> perplexity_data option \<Rightarrow> string" where
  "enhancedPrompt env icfData query stockData perplexityData =
     ''Original Query: '' @ query @ nl @ nl
     @ portfolio_section env icfData stockData
     @ search_section perplexityData
     @ ''Please analyze the above query using:'' @ nl
     @ join nl (instructions stockData perplexityData) @ nl @ nl
     @ ''Incorporate all available information into your analysis and visualizations.''"

text \<open>
  \<^verbatim>\<open>contentArray.find((c) => c.type === 'text')\<close> followed by the assignment to its
  \<^verbatim>\<open>text\<close>: the first text part gets the new text, the other parts stay.
\<close>

fun set_first_text :: "string \<Rightarrow> part list \<Rightarrow> part list" where
  "set_first_text t [] = []"
| "set_first_text t (TextPart c # ps) = TextPart (Str t) # ps"
| "set_first_text t (ImagePart m d # ps) = ImagePart m d # set_first_text t ps"

definition update_last_message :: "string \<Rightarrow> message list \<Rightarrow> message list" where
  "update_last_message prompt ams =
     (if ams = [] then []
      else butlast ams @
        [(last ams)\<lparr>message_content :=
           (case message_content (last ams) of
              Str s \<Rightarrow> Str prompt
            | Parts ps \<Rightarrow>
                if list_ex is_text_part ps then Parts (set_first_text prompt ps)
                else Parts (TextPart (Str prompt) # ps))\<rparr>])"

text \<open>
  Steps 1a, 1b and 2: the conversation that is handed to the model, from the request, its
  conversation \<open>ms\<close> and the conversation \<open>ams\<close> after the file attachment.
\<close>

definition fuse ::
  "'w env \<Rightarrow> request \<Rightarrow> message list \<Rightarrow> message list \<Rightarrow> 'w \<Rightarrow> message list \<times> 'w" where
  "fuse env req ms ams w =
     (case fetch_stockData env req w of
        (stockData, w1) \<Rightarrow>
          (case fetch_perplexityData env req ms w1 of
             (perplexityData, w2) \<Rightarrow>
               if includeLiveData req \<and> extractedUserQuery ms \<noteq> []
                  \<and> (truthy stockData \<or> perplexityData \<noteq> None)
               then (update_last_message
                       (enhancedPrompt env (icfMapping req) (extractedUserQuery ms)
                          stockData perplexityData) ams, w2)
               else (ams, w2)))"

subsection \<open>The route\<close>

text \<open>
  \<^verbatim>\<open>POST\<close> up to the call of the model: an early response (status 400), or the
  conversation that \<^verbatim>\<open>anthropic.messages.create\<close> is called with.
\<close>

definition generative_input ::
  "'w env \<Rightarrow> request \<Rightarrow> 'w \<Rightarrow> (http_response + message list) \<times> 'w" where
  "generative_input env req w =
     (case messages req of
        None \<Rightarrow> (Inl (bad_request ''Messages array is required''), w)
      | Some ms \<Rightarrow>
          if model req = [] then (Inl (bad_request ''Model selection is required''), w)
          else (case attached env req ms of
                  Inl r \<Rightarrow> (Inl r, w)
                | Inr ams \<Rightarrow> (case fuse env req ms ams w of (fused, w') \<Rightarrow> (Inr fused, w'))))"

definition POST :: "'w env \<Rightarrow> request \<Rightarrow> 'w \<Rightarrow> http_response \<times> 'w" where
  "POST env req w =
     (case generative_input env req w of
        (Inl r, w') \<Rightarrow> (r, w')
      | (Inr fused, w') \<Rightarrow>
          (case retryWithBackoff (messages_create env (model req) fused)
                  3 2000 15000 (Some retryable_codes) w' of
             (Inl e, w'') \<Rightarrow> (error_response e, w'')
           | (Inr response_content, w'') \<Rightarrow> (answer (JSON_parse env) response_content, w'')))"

section \<open>The pie reshape in the words of the specification\<close>

text \<open>The field of a record named \<open>k\<close>; \<^verbatim>\<open>undefined\<close> when the record has none.\<close>

definition field :: "json \<Rightarrow> string \<Rightarrow> json" where
  "field item k = (case get_prop item k of Inl e \<Rightarrow> JUndefined | Inr v \<Rightarrow> v)"



section \<open>Example payloads, requests and collaborators\<close>

text \<open>
  The pie payload of the specification: records by region, one series \<^verbatim>\<open>sales\<close>,
  \<^verbatim>\<open>config.xAxisKey = "region"\<close>.
\<close>

definition sales_by_region :: json where
  "sales_by_region =
     JObj [(''chartType'', JStr ''pie''),
           (''config'', JObj [(''title'', JStr ''Sales''), (''description'', JStr ''By region''),
                              (''xAxisKey'', JStr ''region'')]),
           (''data'', JArr [JObj [(''region'', JStr ''US''), (''sales'', JNum 10)],
                            JObj [(''region'', JStr ''EU''), (''sales'', JNum 5)]]),
           (''chartConfig'', JObj [(''sales'', JObj [(''label'', JStr ''Sales'')])])]"

text \<open>A bar payload whose \<^verbatim>\<open>data\<close> is a string that is not JSON.\<close>

definition bar_with_bad_data :: json where
  "bar_with_bad_data =
     JObj [(''chartType'', JStr ''bar''),
           (''config'', JObj [(''title'', JStr ''Sales''), (''description'', JStr ''By region'')]),
           (''data'', JStr ''not json''),
           (''chartConfig'', JObj [(''sales'', JObj [(''label'', JStr ''Sales'')])])]"

text \<open>
  A fragment of \<^verbatim>\<open>JSON.parse\<close>: the texts \<^verbatim>\<open>[{"q":1}]\<close> and
  \<^verbatim>\<open>"[{\"q\":1}]"\<close>; every other string is rejected.
\<close>

definition parse_fragment :: "string \<Rightarrow> json option" where
  "parse_fragment s =
     (if s = [CHR ''['', CHR ''{'', CHR 0x22, CHR ''q'', CHR 0x22, CHR '':'', CHR ''1'', CHR ''}'', CHR '']'']
      then Some (JArr [JObj [(''q'', JNum 1)]])
      else if s = [CHR 0x22, CHR ''['', CHR ''{'', CHR 0x5C, CHR 0x22, CHR ''q'', CHR 0x5C, CHR 0x22,
                   CHR '':'', CHR ''1'', CHR ''}'', CHR '']'', CHR 0x22]
      then Some (JStr [CHR ''['', CHR ''{'', CHR 0x22, CHR ''q'', CHR 0x22, CHR '':'', CHR ''1'', CHR ''}'', CHR '']''])
      else None)"

text \<open>
  Collaborators over a world that counts the requests made. With \<open>env_down\<close> the
  portfolio service answers 503 to every request, the request to the live-search endpoint
  fails without a response, and the model answers with the given blocks.
\<close>

definition env_down :: "block list \<Rightarrow> nat env" where
  "env_down response_content =
     \<lparr>JSON_parse = parse_fragment,
      JSON_stringify = (\<lambda>v. ''{}''),
      decode_text = (\<lambda>s. None),
      fetch_portfolio = (\<lambda>clientId investmentBankerId firmName portfolioType n.
         (Inr \<lparr>reply_status = 503, reply_text = Some ''Service Unavailable'', reply_json = None\<rparr>,
          Suc n)),
      fetch_perplexity = (\<lambda>query n. (Inl (plain_error ''fetch failed''), Suc n)),
      messages_create = (\<lambda>m ms n. (Inr response_content, Suc n))\<rparr>"

text \<open>
  With \<open>env_portfolio\<close> the portfolio service answers with a blob that serialises to
  10000 characters; the live search fails as before.
\<close>

definition env_portfolio :: "block list \<Rightarrow> nat env" where
  "env_portfolio response_content =
     \<lparr>JSON_parse = parse_fragment,
      JSON_stringify = (\<lambda>v. replicate 10000 (CHR ''x'')),
      decode_text = (\<lambda>s. None),
      fetch_portfolio = (\<lambda>clientId investmentBankerId firmName portfolioType n.
         (Inr \<lparr>reply_status = 200, reply_text = None,
               reply_json = Some (JObj [(''holdings'', JArr [])])\<rparr>, Suc n)),
      fetch_perplexity = (\<lambda>query n. (Inl (plain_error ''fetch failed''), Suc n)),
      messages_create = (\<lambda>m ms n. (Inr response_content, Suc n))\<rparr>"

definition acme :: icf_mapping where
  "acme = \<lparr>firm_name = ''Acme'', client_id = ''c1'', investment_banker_id = ''b1'',
           firm_account_name = ''Main''\<rparr>"

text \<open>A request for live data with complete identifiers.\<close>

definition req_live :: request where
  "req_live =
     \<lparr>messages = Some [\<lparr>role = ''user'', message_content = Str ''Show my allocation''\<rparr>],
      fileData = None, model = ''claude'', includeLiveData = True, icfMapping = Some acme\<rparr>"

text \<open>A request without live data and without a file.\<close>

definition req_plain :: request where
  "req_plain =
     \<lparr>messages = Some [\<lparr>role = ''user'', message_content = Str ''Show my allocation''\<rparr>],
      fileData = None, model = ''claude'', includeLiveData = False, icfMapping = None\<rparr>"

text \<open>A request without live data that carries an image.\<close>

definition req_image :: request where
  "req_image =
     \<lparr>messages = Some [\<lparr>role = ''user'', message_content = Str ''What does this chart show?''\<rparr>],
      fileData = Some \<lparr>base64 = ''iVBORw0KGgo='', mediaType = ''image/png'', isText = False,
                       fileName = Some ''chart.png''\<rparr>,
      model = ''claude'', includeLiveData = False, icfMapping = None\<rparr>"

text \<open>A request for live data that carries an image.\<close>

definition req_live_image :: request where
  "req_live_image =
     \<lparr>messages = Some [\<lparr>role = ''user'', message_content = Str ''Show my allocation''\<rparr>],
      fileData = Some \<lparr>base64 = ''iVBORw0KGgo='', mediaType = ''image/png'', isText = False,
                       fileName = Some ''chart.png''\<rparr>,
      model = ''claude'', includeLiveData = True, icfMapping = Some acme\<rparr>"

text \<open>A request without live data that carries a file that is neither text nor an image.\<close>

definition req_pdf :: request where
  "req_pdf =
     \<lparr>messages = Some [\<lparr>role = ''user'', message_content = Str ''Summarise this report''\<rparr>],
      fileData = Some \<lparr>base64 = ''JVBERi0xLjQ='', mediaType = ''application/pdf'', isText = False,
                       fileName = Some ''report.pdf''\<rparr>,
      model = ''claude'', includeLiveData = False, icfMapping = None\<rparr>"

section \<open>Properties of the retry executor\<close>

lemma retry_loop_terminal:
  assumes "fn w0 = (Inl e, w1)" "terminal_client_error (statusCode e)" "attempt < maxRetries"
  shows "retry_loop (counted fn) maxRetries retryableErrors attempt lastError (n, w0)
           = (Inl e, (n + 1, w1))"
  using assms by (subst retry_loop.simps) (simp add: counted_def)

lemma retry_loop_success:
  assumes "fn w0 = (Inr v, w1)" "attempt < maxRetries"
  shows "retry_loop (counted fn) maxRetries retryableErrors attempt lastError (n, w0)
           = (Inr v, (n + 1, w1))"
  using assms by (subst retry_loop.simps) (simp add: counted_def)

lemma retry_loop_again:
  assumes "fn w0 = (Inl e, w1)" "\<not> terminal_client_error (statusCode e)"
    "\<not> not_retryable retryableErrors (statusCode e)" "attempt < maxRetries - 1"
  shows "retry_loop (counted fn) maxRetries retryableErrors attempt lastError (n, w0)
           = retry_loop (counted fn) maxRetries retryableErrors (attempt + 1) (Some e) (n + 1, w1)"
  using assms by (subst retry_loop.simps) (simp add: counted_def)

lemma retry_loop_perplexity_terminal:
  assumes "fn w0 = (Inl e, w1)" "terminal_client_error (status e)" "attempt < maxRetries"
  shows "retry_loop_perplexity (counted fn) maxRetries attempt lastError (n, w0)
           = (Inl e, (n + 1, w1))"
  using assms by (subst retry_loop_perplexity.simps) (simp add: counted_def)

lemma retry_loop_perplexity_success:
  assumes "fn w0 = (Inr v, w1)" "attempt < maxRetries"
  shows "retry_loop_perplexity (counted fn) maxRetries attempt lastError (n, w0)
           = (Inr v, (n + 1, w1))"
  using assms by (subst retry_loop_perplexity.simps) (simp add: counted_def)

lemma retry_loop_perplexity_again:
  assumes "fn w0 = (Inl e, w1)" "\<not> terminal_client_error (status e)"
    "attempt < maxRetries - 1"
  shows "retry_loop_perplexity (counted fn) maxRetries attempt lastError (n, w0)
           = retry_loop_perplexity (counted fn) maxRetries (attempt + 1) (Some e) (n + 1, w1)"
  using assms by (subst retry_loop_perplexity.simps) (simp add: counted_def)

lemma retry_503_503_ok:
  assumes "fn w0 = (Inl e1, w1)" "statusCode e1 = Some 503"
    "fn w1 = (Inl e2, w2)" "statusCode e2 = Some 503"
    "fn w2 = (Inr v, w3)" "\<forall>cs. retryableErrors = Some cs \<longrightarrow> 503 \<in> set cs"
  shows "retryWithBackoff (counted fn) 3 initialDelay maxDelay retryableErrors (0, w0)
           = (Inr v, (3, w3))"
proof -
  have t: "\<not> terminal_client_error (Some 503)"
    by (simp add: terminal_client_error_def)
  have r: "\<not> not_retryable retryableErrors (Some 503)"
    using assms(6) by (simp add: not_retryable_def split: option.splits)
  have "retry_loop (counted fn) 3 retryableErrors 0 None (0, w0)
          = retry_loop (counted fn) 3 retryableErrors 1 (Some e1) (1, w1)"
    using retry_loop_again [where fn = fn and ?w0.0 = w0 and e = e1 and ?w1.0 = w1
        and retryableErrors = retryableErrors and attempt = 0 and maxRetries = 3
        and lastError = None and n = 0] t r assms(1,2) by simp
  also have "\<dots> = retry_loop (counted fn) 3 retryableErrors 2 (Some e2) (2, w2)"
    using retry_loop_again [where fn = fn and ?w0.0 = w1 and e = e2 and ?w1.0 = w2
        and retryableErrors = retryableErrors and attempt = 1 and maxRetries = 3
        and lastError = "Some e1" and n = 1] t r assms(3,4) by (simp add: numeral_2_eq_2)
  also have "\<dots> = (Inr v, (3, w3))"
    using retry_loop_success [where fn = fn and ?w0.0 = w2 and v = v and ?w1.0 = w3
        and retryableErrors = retryableErrors and attempt = 2 and maxRetries = 3
        and lastError = "Some e2" and n = 2] assms(5) by (simp add: numeral_3_eq_3 numeral_2_eq_2)
  finally show ?thesis by (simp add: retryWithBackoff_def)
qed

lemma retry_client_error_once:
  assumes "fn w0 = (Inl e, w1)" "statusCode e = Some c" "400 \<le> c" "c < 500" "c \<noteq> 429"
    "0 < maxRetries"
  shows "retryWithBackoff (counted fn) maxRetries initialDelay maxDelay retryableErrors (0, w0)
           = (Inl e, (1, w1))"
proof -
  have "terminal_client_error (statusCode e)"
    using assms(2-5) by (simp add: terminal_client_error_def)
  with assms(1,6) show ?thesis
    by (simp add: retryWithBackoff_def retry_loop_terminal)
qed

lemma retry_perplexity_503_503_ok:
  assumes "fn w0 = (Inl e1, w1)" "status e1 = Some 503"
    "fn w1 = (Inl e2, w2)" "status e2 = Some 503"
    "fn w2 = (Inr v, w3)"
  shows "retryWithBackoff_perplexity (counted fn) 3 initialDelay maxDelay (0, w0)
           = (Inr v, (3, w3))"
proof -
  have t: "\<not> terminal_client_error (Some 503)"
    by (simp add: terminal_client_error_def)
  have "retry_loop_perplexity (counted fn) 3 0 None (0, w0)
          = retry_loop_perplexity (counted fn) 3 1 (Some e1) (1, w1)"
    using retry_loop_perplexity_again [where fn = fn and ?w0.0 = w0 and e = e1 and ?w1.0 = w1
        and attempt = 0 and maxRetries = 3 and lastError = None and n = 0] t assms(1,2) by simp
  also have "\<dots> = retry_loop_perplexity (counted fn) 3 2 (Some e2) (2, w2)"
    using retry_loop_perplexity_again [where fn = fn and ?w0.0 = w1 and e = e2 and ?w1.0 = w2
        and attempt = 1 and maxRetries = 3 and lastError = "Some e1" and n = 1] t assms(3,4) by (simp add: numeral_2_eq_2)
  also have "\<dots> = (Inr v, (3, w3))"
    using retry_loop_perplexity_success [where fn = fn and ?w0.0 = w2 and v = v and ?w1.0 = w3
        and attempt = 2 and maxRetries = 3 and lastError = "Some e2" and n = 2] assms(5) by (simp add: numeral_3_eq_3 numeral_2_eq_2)
  finally show ?thesis by (simp add: retryWithBackoff_perplexity_def)
qed

lemma retry_perplexity_client_error_once:
  assumes "fn w0 = (Inl e, w1)" "status e = Some c" "400 \<le> c" "c < 500" "c \<noteq> 429"
    "0 < maxRetries"
  shows "retryWithBackoff_perplexity (counted fn) maxRetries initialDelay maxDelay (0, w0)
           = (Inl e, (1, w1))"
proof -
  have "terminal_client_error (status e)"
    using assms(2-5) by (simp add: terminal_client_error_def)
  with assms(1,6) show ?thesis
    by (simp add: retryWithBackoff_perplexity_def retry_loop_perplexity_terminal)
qed

text \<open>
  Claim C2. An operation that fails with status 503 on its first and second call and
  succeeds on the third is, with \<open>maxRetries = 3\<close> and a policy under which 503 is
  retryable (no list of retryable codes, or a list that contains 503), called exactly three
  times, and the executor returns the value of the third call. An operation whose first call
  fails with a status in [400, 500) other than 429, such as 401, is called exactly once
  whatever \<open>maxRetries\<close> \<open>\<ge> 1\<close> is, and the executor fails with that error. Both
  hold for the executor of the finance route and for that of the live-search route.
\<close>

theorem retry_policy:
  "(fn w0 = (Inl e1, w1) \<and> statusCode e1 = Some 503 \<and>
    fn w1 = (Inl e2, w2) \<and> statusCode e2 = Some 503 \<and>
    fn w2 = (Inr v, w3) \<and> (\<forall>cs. retryableErrors = Some cs \<longrightarrow> 503 \<in> set cs)
      \<longrightarrow> retryWithBackoff (counted fn) 3 initialDelay maxDelay retryableErrors (0, w0)
            = (Inr v, (3, w3)))
   \<and> (fn u0 = (Inl e, u1) \<and> statusCode e = Some c \<and> 400 \<le> c \<and> c < 500 \<and> c \<noteq> 429 \<and>
      0 < maxRetries
      \<longrightarrow> retryWithBackoff (counted fn) maxRetries initialDelay maxDelay retryableErrors (0, u0)
            = (Inl e, (1, u1)))
   \<and> (fn w0 = (Inl e1, w1) \<and> status e1 = Some 503 \<and>
      fn w1 = (Inl e2, w2) \<and> status e2 = Some 503 \<and> fn w2 = (Inr v, w3)
      \<longrightarrow> retryWithBackoff_perplexity (counted fn) 3 initialDelay maxDelay (0, w0)
            = (Inr v, (3, w3)))
   \<and> (fn u0 = (Inl e, u1) \<and> status e = Some c \<and> 400 \<le> c \<and> c < 500 \<and> c \<noteq> 429 \<and>
      0 < maxRetries
      \<longrightarrow> retryWithBackoff_perplexity (counted fn) maxRetries initialDelay maxDelay (0, u0)
            = (Inl e, (1, u1)))"
  using retry_503_503_ok [of fn w0 e1 w1 e2 w2 v w3 retryableErrors initialDelay maxDelay]
    retry_client_error_once [of fn u0 e u1 c maxRetries initialDelay maxDelay retryableErrors]
    retry_perplexity_503_503_ok [of fn w0 e1 w1 e2 w2 v w3 initialDelay maxDelay]
    retry_perplexity_client_error_once [of fn u0 e u1 c maxRetries initialDelay maxDelay]
  by blast

text \<open>
  The theorem at a scripted operation that answers 503, 503, the value 7, 401: started at
  its first call with \<open>maxRetries = 3\<close>, and started at its fourth call with
  \<open>maxRetries = 5\<close>.
\<close>

theorem retry_policy_witness:
  "retryWithBackoff
     (counted (scripted [Inl (status_error ''unavailable'' 503), Inl (status_error ''unavailable'' 503),
                         Inr (7::nat), Inl (status_error ''unauthorized'' 401)]))
     3 2000 15000 (Some [429, 500, 502, 503, 504]) (0, 0) = (Inr 7, (3, 3))
   \<and> retryWithBackoff
     (counted (scripted [Inl (status_error ''unavailable'' 503), Inl (status_error ''unavailable'' 503),
                         Inr (7::nat), Inl (status_error ''unauthorized'' 401)]))
     5 2000 15000 (Some [429, 500, 502, 503, 504]) (0, 3)
       = (Inl (status_error ''unauthorized'' 401), (1, 4))
   \<and> retryWithBackoff_perplexity
     (counted (scripted [Inl (status_error ''unavailable'' 503), Inl (status_error ''unavailable'' 503),
                         Inr (7::nat), Inl (status_error ''unauthorized'' 401)]))
     3 2000 15000 (0, 0) = (Inr 7, (3, 3))
   \<and> retryWithBackoff_perplexity
     (counted (scripted [Inl (status_error ''unavailable'' 503), Inl (status_error ''unavailable'' 503),
                         Inr (7::nat), Inl (status_error ''unauthorized'' 401)]))
     5 2000 15000 (0, 3) = (Inl (status_error ''unauthorized'' 401), (1, 4))"
  using retry_policy [of
      "scripted [Inl (status_error ''unavailable'' 503), Inl (status_error ''unavailable'' 503),
                 Inr (7::nat), Inl (status_error ''unauthorized'' 401)]"
      0 "status_error ''unavailable'' 503" 1 "status_error ''unavailable'' 503" 2 7 3
      "Some [429, 500, 502, 503, 504]" 2000 15000 3 "status_error ''unauthorized'' 401" 4 401 5]
  by (simp add: scripted_def statusCode_def num_or_def status_error_def)

section \<open>Properties of the tool-output normaliser\<close>

lemma get_prop_field: "\<not> nullish item \<Longrightarrow> get_prop item k = Inr (field item k)"
  by (cases item) (simp_all add: field_def)


lemma map_of_update: "map_of (AList.update k v al) k' = (if k' = k then Some v else map_of al k')"
  by (simp add: update_conv')

lemma get_prop_update:
  "get_prop (JObj (AList.update k v al)) k' = (if k' = k then Inr v else get_prop (JObj al) k')"
  by (simp add: map_of_update)


lemma parse_data_string:
  assumes "P s = Some (JArr xs)" "s \<noteq> []"
  shows "parse_data P (JObj (AList.update ''data'' (JStr s) kvs))
           = Inr (JObj (AList.update ''data'' (JArr xs) kvs))"
  using assms by (simp add: parse_data_def parse_twice_def map_of_update)

lemma parse_data_string_twice:
  assumes "P s = Some (JArr xs)" "P s2 = Some (JStr s)" "s2 \<noteq> []"
  shows "parse_data P (JObj (AList.update ''data'' (JStr s2) kvs))
           = Inr (JObj (AList.update ''data'' (JArr xs) kvs))"
  using assms by (simp add: parse_data_def parse_twice_def map_of_update)

lemma parse_data_array:
  "parse_data P (JObj (AList.update ''data'' (JArr xs) kvs))
     = Inr (JObj (AList.update ''data'' (JArr xs) kvs))"
  by (simp add: parse_data_def map_of_update)


lemma map_throwing_length: "map_throwing f xs = Inr ys \<Longrightarrow> length ys = length xs"
  by (induction xs arbitrary: ys) (auto split: sum.splits)



lemma record_not_nullish: "is_record item \<Longrightarrow> \<not> nullish item"
  by (cases item) simp_all



lemma show_nat_digits: "set (show_nat n) \<subseteq> set ''0123456789''"
proof (induction n rule: show_nat.induct)
  case (1 n)
  have d: "digit_char m \<in> set ''0123456789''" for m
  proof -
    have "m mod 10 < length ''0123456789''" by simp
    then show ?thesis unfolding digit_char_def by (rule nth_mem)
  qed
  show ?case
  proof (cases "n < 10")
    case True
    then show ?thesis using d [of n] by (subst show_nat.simps) simp
  next
    case False
    then show ?thesis using 1 d [of n] by (subst show_nat.simps) simp
  qed
qed

lemma array_index_no_digit:
  assumes "c \<in> set k" "c \<notin> set ''0123456789''"
  shows "array_index k n = None"
proof -
  have "show_nat i \<noteq> k" for i
    using assms show_nat_digits [of i] by auto
  then show ?thesis by (simp add: array_index_def find_None_iff)
qed

lemma check_structure_obj:
  assumes "check_structure c = Inr u"
  shows "\<exists>kvs ct xs. c = JObj kvs \<and> map_of kvs ''chartType'' = Some ct \<and> truthy ct
           \<and> map_of kvs ''data'' = Some (JArr xs)"
proof (cases c)
  case (JObj kvs)
  with assms show ?thesis
    by (auto simp: check_structure_def split: if_splits option.splits json.splits
        elim!: is_array.elims)
next
  case (JArr xs)
  have "array_index ''chartType'' (length xs) = None"
    by (rule array_index_no_digit [of "CHR ''c''"]) simp_all
  with assms JArr show ?thesis by (simp add: check_structure_def)
next
  case (JStr s)
  have "array_index ''chartType'' (length s) = None"
    by (rule array_index_no_digit [of "CHR ''c''"]) simp_all
  with assms JStr show ?thesis by (simp add: check_structure_def)
qed (use assms in \<open>simp_all add: check_structure_def\<close>)

lemma with_colors_result:
  "with_colors (JObj kvs) = Inr r \<Longrightarrow> \<exists>X. r = JObj (AList.update ''chartConfig'' X kvs)"
  by (auto simp: with_colors_def split: sum.splits option.splits)

lemma pie_data_result:
  assumes "pie_data (JObj kvs) = Inr c1"
  shows "\<exists>items items'. map_of kvs ''data'' = Some (JArr items)
           \<and> map_throwing (pie_item (JObj kvs)) items = Inr items'
           \<and> c1 = JObj (AList.update ''data'' (JArr items') kvs)"
  using assms by (auto simp: pie_data_def split: sum.splits option.splits json.splits)

lemma pie_axis_result:
  assumes "pie_axis (JObj kvs) = Inr c2"
  shows "\<exists>cfg'. c2 = JObj (AList.update ''config'' cfg' kvs)"
  using assms by (auto simp: pie_axis_def split: sum.splits option.splits)

lemma reshape_and_color_result:
  assumes "reshape_and_color c = (Inr r, c')"
  shows "\<exists>kvs' X. c' = JObj kvs' \<and> r = JObj (AList.update ''chartConfig'' X kvs')
           \<and> get_prop c' ''chartConfig'' = get_prop c ''chartConfig''"
proof -
  from assms obtain u where "check_structure c = Inr u"
    by (auto simp: reshape_and_color_def split: sum.splits)
  then obtain kvs where c: "c = JObj kvs"
    using check_structure_obj by blast
  show ?thesis
  proof (cases "get_prop c ''chartType'' = Inr (JStr ''pie'')")
    case False
    with assms have "with_colors c = Inr r" "c' = c"
      by (auto simp: reshape_and_color_def split: sum.splits)
    with c show ?thesis using with_colors_result by blast
  next
    case True
    with assms obtain c1 c2 where 1: "pie_data c = Inr c1" and 2: "pie_axis c1 = Inr c2"
      and 3: "with_colors c2 = Inr r" and 4: "c' = c2"
      by (auto simp: reshape_and_color_def split: sum.splits)
    from 1 c obtain d where c1: "c1 = JObj (AList.update ''data'' d kvs)"
      using pie_data_result by blast
    from 2 c1 obtain cfg' where c2: "c2 = JObj (AList.update ''config'' cfg' (AList.update ''data'' d kvs))"
      using pie_axis_result by blast
    from 3 c2 obtain X where "r = JObj (AList.update ''chartConfig'' X (AList.update ''config'' cfg' (AList.update ''data'' d kvs)))"
      using with_colors_result by blast
    with c c2 4 show ?thesis by (auto simp: map_of_update)
  qed
qed

lemma parse_data_result:
  assumes "parse_data P input = Inr c"
  shows "c = input \<or> (\<exists>kvs s v. input = JObj kvs \<and> map_of kvs ''data'' = Some (JStr s) \<and> s \<noteq> []
                          \<and> c = JObj (AList.update ''data'' v kvs))"
proof (cases input)
  case (JObj kvs)
  with assms show ?thesis
    by (auto simp: parse_data_def parse_twice_def split: option.splits json.splits if_splits)
next
  case (JArr xs)
  have "array_index ''data'' (length xs) = None"
    by (rule array_index_no_digit [of "CHR ''d''"]) simp_all
  with assms JArr show ?thesis by (simp add: parse_data_def)
next
  case (JStr s)
  have "array_index ''data'' (length s) = None"
    by (rule array_index_no_digit [of "CHR ''d''"]) simp_all
  with assms JStr show ?thesis by (simp add: parse_data_def)
qed (use assms in \<open>simp_all add: parse_data_def\<close>)

lemma reshape_and_color_untouched:
  assumes "get_prop c ''chartType'' \<noteq> Inr (JStr ''pie'')"
  shows "snd (reshape_and_color c) = c"
  using assms by (simp add: reshape_and_color_def split: sum.splits)

lemma processToolResponse_untouched:
  assumes "\<forall>s. s \<noteq> [] \<longrightarrow> get_prop input ''data'' \<noteq> Inr (JStr s)"
    and "get_prop input ''chartType'' \<noteq> Inr (JStr ''pie'')"
  shows "snd (processToolResponse P input) = input"
proof (cases "parse_data P input")
  case (Inl e)
  then show ?thesis by (simp add: processToolResponse_def)
next
  case (Inr c)
  then have "c = input"
    using parse_data_result [OF Inr] assms(1) by auto
  with Inr assms(2) show ?thesis
    by (simp add: processToolResponse_def reshape_and_color_untouched)
qed

lemma processToolResponse_result:
  assumes "processToolResponse P input = (Inr v, input')"
  shows "get_prop input' ''chartConfig'' = get_prop input ''chartConfig''
         \<and> (\<forall>k. k \<noteq> ''chartConfig'' \<longrightarrow> get_prop v k = get_prop input' k)"
proof -
  from assms obtain c where p: "parse_data P input = Inr c" and r: "reshape_and_color c = (Inr v, input')"
    by (auto simp: processToolResponse_def split: sum.splits)
  from parse_data_result [OF p] have "get_prop c ''chartConfig'' = get_prop input ''chartConfig''"
    by (auto simp: map_of_update)
  moreover from reshape_and_color_result [OF r] obtain kvs' X where
    "input' = JObj kvs'" "v = JObj (AList.update ''chartConfig'' X kvs')"
    "get_prop input' ''chartConfig'' = get_prop c ''chartConfig''"
    by blast
  ultimately show ?thesis by (simp add: map_of_update)
qed

lemma native_array_result:
  assumes "fst (processToolResponse P (JObj (AList.update ''data'' (JArr xs) kvs))) = Inr r"
  shows "\<exists>ys. get_prop r ''data'' = Inr (JArr ys) \<and> length ys = length xs
           \<and> (get_prop (JObj kvs) ''chartType'' \<noteq> Inr (JStr ''pie'') \<longrightarrow> ys = xs)"
proof -
  let ?kvs1 = "AList.update ''data'' (JArr xs) kvs"
  obtain c' where r: "reshape_and_color (JObj ?kvs1) = (Inr r, c')"
    using assms by (cases "reshape_and_color (JObj ?kvs1)")
      (simp add: processToolResponse_def parse_data_array)
  show ?thesis
  proof (cases "get_prop (JObj ?kvs1) ''chartType'' = Inr (JStr ''pie'')")
    case False
    with r have "with_colors (JObj ?kvs1) = Inr r"
      by (auto simp: reshape_and_color_def split: sum.splits)
    then obtain X where "r = JObj (AList.update ''chartConfig'' X ?kvs1)"
      using with_colors_result by blast
    then show ?thesis by (simp add: map_of_update)
  next
    case True
    with r obtain c1 c2 where 1: "pie_data (JObj ?kvs1) = Inr c1" and 2: "pie_axis c1 = Inr c2"
      and 3: "with_colors c2 = Inr r"
      by (auto simp: reshape_and_color_def split: sum.splits)
    from pie_data_result [OF 1] obtain ys where
      m: "map_throwing (pie_item (JObj ?kvs1)) xs = Inr ys"
      and c1: "c1 = JObj (AList.update ''data'' (JArr ys) ?kvs1)"
      by (auto simp: map_of_update)
    from 2 c1 obtain cfg' where
      c2: "c2 = JObj (AList.update ''config'' cfg' (AList.update ''data'' (JArr ys) ?kvs1))"
      using pie_axis_result by blast
    from 3 c2 obtain X where
      "r = JObj (AList.update ''chartConfig'' X
                  (AList.update ''config'' cfg' (AList.update ''data'' (JArr ys) ?kvs1)))"
      using with_colors_result by blast
    with True map_throwing_length [OF m] show ?thesis by (simp add: map_of_update)
  qed
qed

text \<open>
  Claim C3. Let \<open>s\<close> be a non-empty string that \<^verbatim>\<open>JSON.parse\<close> reads as the array
  \<open>xs\<close>, and \<open>s2\<close> a non-empty string that it reads as the string \<open>s\<close>. Payloads that
  differ in \<^verbatim>\<open>data\<close> only, which is \<open>s\<close>, \<open>s2\<close> or the array \<open>xs\<close> itself, are
  normalised alike: the same result or error, and the same final state of the tool input.
  Where normalisation succeeds, \<^verbatim>\<open>data\<close> of the result is an array with as many
  records as \<open>xs\<close>, and \<open>xs\<close> itself unless the chart is a pie chart.
\<close>

theorem double_encoded_data:
  assumes "P s = Some (JArr xs)" and "s \<noteq> []" and "P s2 = Some (JStr s)" and "s2 \<noteq> []"
  shows "processToolResponse P (JObj (AList.update ''data'' (JStr s) kvs))
           = processToolResponse P (JObj (AList.update ''data'' (JArr xs) kvs))
         \<and> processToolResponse P (JObj (AList.update ''data'' (JStr s2) kvs))
           = processToolResponse P (JObj (AList.update ''data'' (JArr xs) kvs))
         \<and> (\<forall>r. fst (processToolResponse P (JObj (AList.update ''data'' (JArr xs) kvs))) = Inr r
               \<longrightarrow> (\<exists>ys. get_prop r ''data'' = Inr (JArr ys) \<and> length ys = length xs
                      \<and> (get_prop (JObj kvs) ''chartType'' \<noteq> Inr (JStr ''pie'') \<longrightarrow> ys = xs)))"
  using assms native_array_result [of P xs kvs]
  by (simp add: processToolResponse_def parse_data_string parse_data_string_twice parse_data_array)

text \<open>
  The theorem at the array \<^verbatim>\<open>[{"q":1}]\<close>, its JSON text and the JSON text of that
  text, in a bar chart: the three payloads give the same chart, whose \<^verbatim>\<open>data\<close> is the
  array.
\<close>

theorem double_encoded_data_witness:
  "processToolResponse parse_fragment
     (JObj [(''chartType'', JStr ''bar''),
            (''data'', JStr [CHR ''['', CHR ''{'', CHR 0x22, CHR ''q'', CHR 0x22, CHR '':'', CHR ''1'', CHR ''}'', CHR '']'']),
            (''chartConfig'', JObj [(''q'', JObj [(''label'', JStr ''Q'')])])])
     = processToolResponse parse_fragment
         (JObj [(''chartType'', JStr ''bar''),
                (''data'', JArr [JObj [(''q'', JNum 1)]]),
                (''chartConfig'', JObj [(''q'', JObj [(''label'', JStr ''Q'')])])])
   \<and> processToolResponse parse_fragment
     (JObj [(''chartType'', JStr ''bar''),
            (''data'', JStr [CHR 0x22, CHR ''['', CHR ''{'', CHR 0x5C, CHR 0x22, CHR ''q'', CHR 0x5C, CHR 0x22,
                            CHR '':'', CHR ''1'', CHR ''}'', CHR '']'', CHR 0x22]),
            (''chartConfig'', JObj [(''q'', JObj [(''label'', JStr ''Q'')])])])
     = processToolResponse parse_fragment
         (JObj [(''chartType'', JStr ''bar''),
                (''data'', JArr [JObj [(''q'', JNum 1)]]),
                (''chartConfig'', JObj [(''q'', JObj [(''label'', JStr ''Q'')])])])
   \<and> fst (processToolResponse parse_fragment
         (JObj [(''chartType'', JStr ''bar''),
                (''data'', JArr [JObj [(''q'', JNum 1)]]),
                (''chartConfig'', JObj [(''q'', JObj [(''label'', JStr ''Q'')])])]))
     = Inr (JObj [(''chartType'', JStr ''bar''),
                  (''data'', JArr [JObj [(''q'', JNum 1)]]),
                  (''chartConfig'', JObj [(''q'', JObj [(''label'', JStr ''Q''),
                                                       (''color'', JStr ''hsl(var(--chart-1))'')])])])"
proof -
  have 1: "parse_fragment [CHR ''['', CHR ''{'', CHR 0x22, CHR ''q'', CHR 0x22, CHR '':'', CHR ''1'', CHR ''}'', CHR '']'']
             = Some (JArr [JObj [(''q'', JNum 1)]])"
    by (simp add: parse_fragment_def)
  have 2: "parse_fragment [CHR 0x22, CHR ''['', CHR ''{'', CHR 0x5C, CHR 0x22, CHR ''q'', CHR 0x5C, CHR 0x22,
                           CHR '':'', CHR ''1'', CHR ''}'', CHR '']'', CHR 0x22]
             = Some (JStr [CHR ''['', CHR ''{'', CHR 0x22, CHR ''q'', CHR 0x22, CHR '':'', CHR ''1'', CHR ''}'', CHR '']''])"
    by (simp add: parse_fragment_def)
  have 3: "fst (processToolResponse parse_fragment
         (JObj [(''chartType'', JStr ''bar''),
                (''data'', JArr [JObj [(''q'', JNum 1)]]),
                (''chartConfig'', JObj [(''q'', JObj [(''label'', JStr ''Q'')])])]))
     = Inr (JObj [(''chartType'', JStr ''bar''),
                  (''data'', JArr [JObj [(''q'', JNum 1)]]),
                  (''chartConfig'', JObj [(''q'', JObj [(''label'', JStr ''Q''),
                                                       (''color'', JStr ''hsl(var(--chart-1))'')])])])"
    by (simp add: processToolResponse_def parse_data_def reshape_and_color_def check_structure_def
        with_colors_def Object_entries_def chart_color_def show_nat.simps digit_char_def)
  from double_encoded_data [OF 1 _ 2, of
      "[(''chartType'', JStr ''bar''), (''data'', JNull),
        (''chartConfig'', JObj [(''q'', JObj [(''label'', JStr ''Q'')])])]"] 3
  show ?thesis by simp
qed

text \<open>
  Claim C10, as amended. For a record that is an object, and a value key and a segment key
  that are strings and not the name of a member that objects inherit, the callback of the
  pie reshape returns exactly the keys \<^verbatim>\<open>segment\<close> and \<^verbatim>\<open>value\<close>. \<^verbatim>\<open>value\<close>
  is the field under the first key of \<^verbatim>\<open>chartConfig\<close> unless that is \<^verbatim>\<open>null\<close> or
  \<^verbatim>\<open>undefined\<close> (so 0, the empty string and \<^verbatim>\<open>false\<close> are kept), and the field
  \<^verbatim>\<open>value\<close> otherwise. \<^verbatim>\<open>segment\<close> is the first truthy one of the field under
  the segment key and the fields \<^verbatim>\<open>segment\<close> and \<^verbatim>\<open>category\<close>; when all three
  are falsy it is the field \<^verbatim>\<open>name\<close> as it is, which is \<^verbatim>\<open>undefined\<close> only
  when the record has no such field.
\<close>

theorem pie_lookups:
  assumes "is_record item" and "\<not> inherited_name valueKey" and "\<not> inherited_name segmentKey"
  shows "pie_record (JStr valueKey) (JStr segmentKey) item
           = Inr (JObj [(''segment'',
                         if truthy (field item segmentKey) then field item segmentKey
                         else if truthy (field item ''segment'') then field item ''segment''
                         else if truthy (field item ''category'') then field item ''category''
                         else field item ''name''),
                        (''value'',
                         if nullish (field item valueKey) then field item ''value''
                         else field item valueKey)])"
  using assms(1)
  by (simp add: pie_record_def get_prop_field record_not_nullish js_or_def nullish_coalesce_def)

text \<open>
  A record whose series value is 0 and whose only segment candidate is an empty
  \<^verbatim>\<open>name\<close>: the 0 is kept although the record has a field \<^verbatim>\<open>value\<close>, and the
  segment is the empty string.
\<close>

theorem pie_lookups_witness:
  "pie_record (JStr ''sales'') (JStr ''segment'')
     (JObj [(''name'', JStr []), (''sales'', JNum 0), (''value'', JNum 7)])
     = Inr (JObj [(''segment'', JStr []), (''value'', JNum 0)])"
  using pie_lookups [of "JObj [(''name'', JStr []), (''sales'', JNum 0), (''value'', JNum 7)]"
      "''sales''" "''segment''"]
  by (simp add: field_def inherited_name_def object_prototype_names_def)

text \<open>
  Claim C10 as stated fails: in this pie payload every segment candidate of the record is
  falsy (\<^verbatim>\<open>region\<close>, \<^verbatim>\<open>segment\<close> and \<^verbatim>\<open>category\<close> are absent,
  \<^verbatim>\<open>name\<close> is the empty string), and the segment of the normalised record is
  the empty string, not \<^verbatim>\<open>undefined\<close>.
\<close>

theorem pie_segment_counterexample:
  "fst (processToolResponse parse_fragment
      (JObj [(''chartType'', JStr ''pie''),
             (''config'', JObj [(''title'', JStr ''Sales''), (''description'', JStr ''By region''),
                                (''xAxisKey'', JStr ''region'')]),
             (''data'', JArr [JObj [(''name'', JStr []), (''sales'', JNum 0)]]),
             (''chartConfig'', JObj [(''sales'', JObj [(''label'', JStr ''Sales'')])])]))
     = Inr (JObj [(''chartType'', JStr ''pie''),
                  (''config'', JObj [(''title'', JStr ''Sales''), (''description'', JStr ''By region''),
                                     (''xAxisKey'', JStr ''segment'')]),
                  (''data'', JArr [JObj [(''segment'', JStr []), (''value'', JNum 0)]]),
                  (''chartConfig'', JObj [(''sales'', JObj [(''label'', JStr ''Sales''),
                                                          (''color'', JStr ''hsl(var(--chart-1))'')])])])
   \<and> JStr [] \<noteq> JUndefined"
  by (simp add: processToolResponse_def parse_data_def reshape_and_color_def check_structure_def
      pie_data_def pie_item_def first_config_key_def Object_keys_def segment_key_def
      pie_record_def js_or_def nullish_coalesce_def pie_axis_def
      with_colors_def Object_entries_def chart_color_def show_nat.simps digit_char_def)

lemma answer_with_tool:
  assumes "toolUseContent response_content = Some t"
  shows "answer P response_content
           = \<lparr>http_status = 200,
              http_body = Success
                \<lparr>content = fullTextContent response_content,
                 hasToolUse = list_ex is_tool_use_block response_content,
                 toolUse = Some (t\<lparr>tool_input := snd (processToolResponse P (tool_input t))\<rparr>),
                 chartData = (case fst (processToolResponse P (tool_input t)) of
                                Inl e \<Rightarrow> None | Inr v \<Rightarrow> Some v)\<rparr>\<rparr>"
  using assms by (simp add: answer_def split: prod.splits)

text \<open>
  Claim C9, as amended. The normalised chart payload is constructed once per request from
  the tool invocation that was selected. The invocation echoed in \<^verbatim>\<open>toolUse\<close> keeps
  the identifier and the name of the model's invocation, and its input is the state in
  which normalisation has left the model's input: the model's original input when
  \<^verbatim>\<open>data\<close> is not a non-empty string and the chart is not a pie chart; and whenever a
  chart is produced, an object whose \<^verbatim>\<open>chartConfig\<close> is the model's original one and
  whose other fields are those of the normalised payload.
\<close>

theorem echoed_tool_input:
  assumes "toolUseContent response_content = Some t"
  shows "answer P response_content
           = \<lparr>http_status = 200,
              http_body = Success
                \<lparr>content = fullTextContent response_content,
                 hasToolUse = list_ex is_tool_use_block response_content,
                 toolUse = Some (t\<lparr>tool_input := snd (processToolResponse P (tool_input t))\<rparr>),
                 chartData = (case fst (processToolResponse P (tool_input t)) of
                                Inl e \<Rightarrow> None | Inr v \<Rightarrow> Some v)\<rparr>\<rparr>
         \<and> ((\<forall>s. s \<noteq> [] \<longrightarrow> get_prop (tool_input t) ''data'' \<noteq> Inr (JStr s))
              \<and> get_prop (tool_input t) ''chartType'' \<noteq> Inr (JStr ''pie'')
              \<longrightarrow> snd (processToolResponse P (tool_input t)) = tool_input t)
         \<and> (\<forall>v. fst (processToolResponse P (tool_input t)) = Inr v
              \<longrightarrow> get_prop (snd (processToolResponse P (tool_input t))) ''chartConfig''
                    = get_prop (tool_input t) ''chartConfig''
                  \<and> (\<forall>k. k \<noteq> ''chartConfig''
                       \<longrightarrow> get_prop v k = get_prop (snd (processToolResponse P (tool_input t))) k))"
proof (intro conjI allI impI)
  show "answer P response_content
           = \<lparr>http_status = 200,
              http_body = Success
                \<lparr>content = fullTextContent response_content,
                 hasToolUse = list_ex is_tool_use_block response_content,
                 toolUse = Some (t\<lparr>tool_input := snd (processToolResponse P (tool_input t))\<rparr>),
                 chartData = (case fst (processToolResponse P (tool_input t)) of
                                Inl e \<Rightarrow> None | Inr v \<Rightarrow> Some v)\<rparr>\<rparr>"
    using assms by (rule answer_with_tool)
next
  assume "(\<forall>s. s \<noteq> [] \<longrightarrow> get_prop (tool_input t) ''data'' \<noteq> Inr (JStr s))
          \<and> get_prop (tool_input t) ''chartType'' \<noteq> Inr (JStr ''pie'')"
  then show "snd (processToolResponse P (tool_input t)) = tool_input t"
    by (simp add: processToolResponse_untouched)
next
  fix v assume v: "fst (processToolResponse P (tool_input t)) = Inr v"
  then have "processToolResponse P (tool_input t)
               = (Inr v, snd (processToolResponse P (tool_input t)))"
    by (cases "processToolResponse P (tool_input t)") simp
  from processToolResponse_result [OF this]
  show "get_prop (snd (processToolResponse P (tool_input t))) ''chartConfig''
          = get_prop (tool_input t) ''chartConfig''"
    by simp
next
  fix v k assume v: "fst (processToolResponse P (tool_input t)) = Inr v"
    and k: "k \<noteq> ''chartConfig''"
  from v have "processToolResponse P (tool_input t)
               = (Inr v, snd (processToolResponse P (tool_input t)))"
    by (cases "processToolResponse P (tool_input t)") simp
  from processToolResponse_result [OF this] k
  show "get_prop v k = get_prop (snd (processToolResponse P (tool_input t))) k"
    by simp
qed

text \<open>
  The theorem at a response with one bar chart whose \<^verbatim>\<open>data\<close> is an array: the echoed
  input is the model's input, and the chart differs from it in the colour of its series.
\<close>

theorem echoed_tool_input_witness:
  "answer parse_fragment
     [TextBlock ''Sales by quarter.'',
      ToolUseBlock \<lparr>tool_id = ''toolu_1'', tool_name = ''generate_graph_data'',
        tool_input = JObj [(''chartType'', JStr ''bar''),
                           (''data'', JArr [JObj [(''q'', JNum 1)]]),
                           (''chartConfig'', JObj [(''q'', JObj [(''label'', JStr ''Q'')])])]\<rparr>]
     = \<lparr>http_status = 200,
        http_body = Success
          \<lparr>content = ''Sales by quarter.'',
           hasToolUse = True,
           toolUse = Some \<lparr>tool_id = ''toolu_1'', tool_name = ''generate_graph_data'',
             tool_input = JObj [(''chartType'', JStr ''bar''),
                                (''data'', JArr [JObj [(''q'', JNum 1)]]),
                                (''chartConfig'', JObj [(''q'', JObj [(''label'', JStr ''Q'')])])]\<rparr>,
           chartData = Some (JObj [(''chartType'', JStr ''bar''),
                                   (''data'', JArr [JObj [(''q'', JNum 1)]]),
                                   (''chartConfig'', JObj [(''q'', JObj [(''label'', JStr ''Q''),
                                      (''color'', JStr ''hsl(var(--chart-1))'')])])])\<rparr>\<rparr>"
proof -
  have s: "toolUseContent
     [TextBlock ''Sales by quarter.'',
      ToolUseBlock \<lparr>tool_id = ''toolu_1'', tool_name = ''generate_graph_data'',
        tool_input = JObj [(''chartType'', JStr ''bar''),
                           (''data'', JArr [JObj [(''q'', JNum 1)]]),
                           (''chartConfig'', JObj [(''q'', JObj [(''label'', JStr ''Q'')])])]\<rparr>]
     = Some \<lparr>tool_id = ''toolu_1'', tool_name = ''generate_graph_data'',
        tool_input = JObj [(''chartType'', JStr ''bar''),
                           (''data'', JArr [JObj [(''q'', JNum 1)]]),
                           (''chartConfig'', JObj [(''q'', JObj [(''label'', JStr ''Q'')])])]\<rparr>"
    by (simp add: toolUseContent_def)
  have f: "fst (processToolResponse parse_fragment
         (JObj [(''chartType'', JStr ''bar''),
                (''data'', JArr [JObj [(''q'', JNum 1)]]),
                (''chartConfig'', JObj [(''q'', JObj [(''label'', JStr ''Q'')])])]))
     = Inr (JObj [(''chartType'', JStr ''bar''),
                  (''data'', JArr [JObj [(''q'', JNum 1)]]),
                  (''chartConfig'', JObj [(''q'', JObj [(''label'', JStr ''Q''),
                                                       (''color'', JStr ''hsl(var(--chart-1))'')])])])"
    by (simp add: processToolResponse_def parse_data_def reshape_and_color_def check_structure_def
        with_colors_def Object_entries_def chart_color_def show_nat.simps digit_char_def)
  from echoed_tool_input [OF s, of parse_fragment] f
  show ?thesis by (simp add: fullTextContent_def)
qed

text \<open>
  Claim C9 as stated fails: for the pie payload of the specification, the input echoed
  in \<^verbatim>\<open>toolUse\<close> has the reshaped records and \<^verbatim>\<open>xAxisKey = "segment"\<close>; it is not
  the input that the model sent.
\<close>

theorem echoed_tool_input_counterexample:
  "answer parse_fragment
     [ToolUseBlock \<lparr>tool_id = ''toolu_1'', tool_name = ''generate_graph_data'',
                    tool_input = sales_by_region\<rparr>]
     = \<lparr>http_status = 200,
        http_body = Success
          \<lparr>content = [],
           hasToolUse = True,
           toolUse = Some \<lparr>tool_id = ''toolu_1'', tool_name = ''generate_graph_data'',
             tool_input =
               JObj [(''chartType'', JStr ''pie''),
                     (''config'', JObj [(''title'', JStr ''Sales''), (''description'', JStr ''By region''),
                                        (''xAxisKey'', JStr ''segment'')]),
                     (''data'', JArr [JObj [(''segment'', JStr ''US''), (''value'', JNum 10)],
                                      JObj [(''segment'', JStr ''EU''), (''value'', JNum 5)]]),
                     (''chartConfig'', JObj [(''sales'', JObj [(''label'', JStr ''Sales'')])])]\<rparr>,
           chartData = Some
             (JObj [(''chartType'', JStr ''pie''),
                    (''config'', JObj [(''title'', JStr ''Sales''), (''description'', JStr ''By region''),
                                       (''xAxisKey'', JStr ''segment'')]),
                    (''data'', JArr [JObj [(''segment'', JStr ''US''), (''value'', JNum 10)],
                                     JObj [(''segment'', JStr ''EU''), (''value'', JNum 5)]]),
                    (''chartConfig'', JObj [(''sales'', JObj [(''label'', JStr ''Sales''),
                                                            (''color'', JStr ''hsl(var(--chart-1))'')])])])\<rparr>\<rparr>
   \<and> JObj [(''chartType'', JStr ''pie''),
           (''config'', JObj [(''title'', JStr ''Sales''), (''description'', JStr ''By region''),
                              (''xAxisKey'', JStr ''segment'')]),
           (''data'', JArr [JObj [(''segment'', JStr ''US''), (''value'', JNum 10)],
                            JObj [(''segment'', JStr ''EU''), (''value'', JNum 5)]]),
           (''chartConfig'', JObj [(''sales'', JObj [(''label'', JStr ''Sales'')])])]
     \<noteq> sales_by_region"
  by (simp add: answer_def toolUseContent_def fullTextContent_def sales_by_region_def
      processToolResponse_def parse_data_def reshape_and_color_def check_structure_def
      pie_data_def pie_item_def first_config_key_def Object_keys_def segment_key_def
      pie_record_def js_or_def nullish_coalesce_def pie_axis_def
      with_colors_def Object_entries_def chart_color_def show_nat.simps digit_char_def)

section \<open>Properties of the response\<close>

text \<open>
  In the copy of the route with the retry executor, a tool invocation whose input cannot be
  normalised does not fail the request: the response has status 200, the text of the model
  and no chart.
\<close>

lemma malformed_tool_call_recovered:
  assumes "toolUseContent response_content = Some t"
    and "fst (processToolResponse P (tool_input t)) = Inl e"
  shows "answer P response_content
           = \<lparr>http_status = 200,
              http_body = Success
                \<lparr>content = fullTextContent response_content,
                 hasToolUse = list_ex is_tool_use_block response_content,
                 toolUse = Some (t\<lparr>tool_input := snd (processToolResponse P (tool_input t))\<rparr>),
                 chartData = None\<rparr>\<rparr>"
  using assms by (simp add: answer_with_tool)

lemma answer_status: "http_status (answer P response_content) = 200"
  by (simp add: answer_def split: option.splits prod.splits)

text \<open>
  Claim C1 fails in \<^verbatim>\<open>src/app/api/finance/route.ts\<close>, where the call of
  \<^verbatim>\<open>processToolResponse\<close> is not guarded: for a response with a text block and a
  bar chart whose \<^verbatim>\<open>data\<close> is the string \<^verbatim>\<open>not json\<close>, the request fails with
  status 500, and the text of the model is not returned. The other copy of the route
  answers the same response of the model with status 200, the text and no chart.
\<close>

theorem malformed_tool_call_fails_request_app:
  "answer_app
     [TextBlock ''Sales by region.'',
      ToolUseBlock \<lparr>tool_id = ''toolu_1'', tool_name = ''generate_graph_data'',
                    tool_input = bar_with_bad_data\<rparr>]
     = \<lparr>http_status = 500,
        http_body = Failure \<lparr>error = ''Invalid chart data structure'',
                             details = None, code = None\<rparr>\<rparr>
   \<and> answer parse_fragment
     [TextBlock ''Sales by region.'',
      ToolUseBlock \<lparr>tool_id = ''toolu_1'', tool_name = ''generate_graph_data'',
                    tool_input = bar_with_bad_data\<rparr>]
     = \<lparr>http_status = 200,
        http_body = Success
          \<lparr>content = ''Sales by region.'', hasToolUse = True,
           toolUse = Some \<lparr>tool_id = ''toolu_1'', tool_name = ''generate_graph_data'',
                           tool_input = bar_with_bad_data\<rparr>,
           chartData = None\<rparr>\<rparr>"
  by (simp add: answer_app_def toolUseContent_app_def processToolResponse_app_def
      bar_with_bad_data_def reshape_and_color_def check_structure_def
      invalid_structure_error_def plain_error_def error_response_def
      answer_def toolUseContent_def fullTextContent_def processToolResponse_def
      parse_data_def parse_twice_def parse_fragment_def)

text \<open>
  In the copy of the route with the retry executor, the text of the response is the texts
  of all text blocks, in their order, joined by a blank line, and the tool invocation that
  is normalised is the first one named \<^verbatim>\<open>generate_graph_data\<close> if there is one, and
  the first tool invocation otherwise.
\<close>

lemma answer_content:
  "http_body (answer P response_content) = Success b
     \<Longrightarrow> content b = join (nl @ nl) (map block_text (filter is_text_block response_content))"
  by (auto simp: answer_def fullTextContent_def nl_def split: option.splits prod.splits)

lemma find_first:
  "find p xs = Some x \<Longrightarrow> \<exists>pre post. xs = pre @ x # post \<and> p x \<and> (\<forall>y \<in> set pre. \<not> p y)"
proof (induction xs)
  case Nil
  then show ?case by simp
next
  case (Cons a xs)
  show ?case
  proof (cases "p a")
    case True
    with Cons.prems have "x = a" by simp
    with True show ?thesis by (intro exI [of _ "[]"] exI [of _ xs]) simp
  next
    case False
    with Cons obtain pre post where "xs = pre @ x # post" "p x" "\<forall>y \<in> set pre. \<not> p y"
      by auto
    with False show ?thesis by (intro exI [of _ "a # pre"] exI [of _ post]) simp
  qed
qed

lemma toolUseContent_chart:
  assumes "list_ex (\<lambda>c. tool_name c = ''generate_graph_data'') (tool_uses response_content)"
  shows "\<exists>pre t post. toolUseContent response_content = Some t
           \<and> tool_uses response_content = pre @ t # post
           \<and> tool_name t = ''generate_graph_data''
           \<and> list_all (\<lambda>c. tool_name c \<noteq> ''generate_graph_data'') pre"
proof -
  from assms obtain t where
    f: "find (\<lambda>c. tool_name c = ''generate_graph_data'') (tool_uses response_content) = Some t"
    by (cases "find (\<lambda>c. tool_name c = ''generate_graph_data'') (tool_uses response_content)")
      (auto simp: find_None_iff list_ex_iff)
  from find_first [OF f] f show ?thesis
    by (auto simp: toolUseContent_def list_all_iff)
qed

lemma toolUseContent_first:
  assumes "\<not> list_ex (\<lambda>c. tool_name c = ''generate_graph_data'') (tool_uses response_content)"
  shows "toolUseContent response_content
           = (case tool_uses response_content of [] \<Rightarrow> None | c # cs \<Rightarrow> Some c)"
proof -
  from assms have
    "find (\<lambda>c. tool_name c = ''generate_graph_data'') (tool_uses response_content) = None"
    by (simp add: find_None_iff list_ex_iff)
  then show ?thesis by (simp add: toolUseContent_def)
qed

text \<open>
  Claim C7 fails in \<^verbatim>\<open>src/app/api/finance/route.ts\<close>: of two text blocks only the
  first is returned, where the other copy of the route returns both, joined by a blank
  line; and of two tool invocations the first is taken although the second is the one
  named \<^verbatim>\<open>generate_graph_data\<close>, which the other copy selects.
\<close>

theorem first_blocks_only_app:
  "answer_app [TextBlock ''First part.'', TextBlock ''Second part.'']
     = \<lparr>http_status = 200,
        http_body = Success \<lparr>content = ''First part.'', hasToolUse = False,
                             toolUse = None, chartData = None\<rparr>\<rparr>
   \<and> answer parse_fragment [TextBlock ''First part.'', TextBlock ''Second part.'']
     = \<lparr>http_status = 200,
        http_body = Success \<lparr>content = ''First part.'' @ nl @ nl @ ''Second part.'',
                             hasToolUse = False, toolUse = None, chartData = None\<rparr>\<rparr>
   \<and> toolUseContent_app
       [ToolUseBlock \<lparr>tool_id = ''toolu_1'', tool_name = ''lookup'', tool_input = JObj []\<rparr>,
        ToolUseBlock \<lparr>tool_id = ''toolu_2'', tool_name = ''generate_graph_data'',
                      tool_input = sales_by_region\<rparr>]
     = Some \<lparr>tool_id = ''toolu_1'', tool_name = ''lookup'', tool_input = JObj []\<rparr>
   \<and> toolUseContent
       [ToolUseBlock \<lparr>tool_id = ''toolu_1'', tool_name = ''lookup'', tool_input = JObj []\<rparr>,
        ToolUseBlock \<lparr>tool_id = ''toolu_2'', tool_name = ''generate_graph_data'',
                      tool_input = sales_by_region\<rparr>]
     = Some \<lparr>tool_id = ''toolu_2'', tool_name = ''generate_graph_data'',
             tool_input = sales_by_region\<rparr>"
  by (simp add: answer_app_def answer_def toolUseContent_app_def toolUseContent_def
      textContent_app_def fullTextContent_def nl_def)

section \<open>Properties of the context fusion\<close>

lemma anthropicMessages_id: "anthropicMessages ms = ms"
proof -
  have m: "\<lparr>role = role m, message_content = message_content m\<rparr> = m" for m :: message
    by (cases m) simp
  show ?thesis by (simp add: anthropicMessages_def m)
qed

lemma answer_success:
  "\<exists>b. http_body (answer P response_content) = Success b
       \<and> content b = fullTextContent response_content"
  by (simp add: answer_def split: option.splits prod.splits)



lemma fuse_without_sources:
  assumes "fetch_stockData env req w = (JNull, w1)"
    and "fetch_perplexityData env req ms w1 = (None, w2)"
  shows "fuse env req ms ams w = (ams, w2)"
  using assms by (simp add: fuse_def)

lemma fuse_no_live_data:
  assumes "\<not> includeLiveData req"
  shows "fuse env req ms ams w = (ams, w)"
  using assms by (simp add: fuse_def fetch_stockData_def fetch_perplexityData_def)

lemma join_no_texts: "fullTextContent response_content = []"
  if "filter is_text_block response_content = []"
  using that by (simp add: fullTextContent_def)

text \<open>
  What the file attachment leaves of a conversation that is not empty, when it does not
  reject the request.
\<close>

lemma attached_result:
  assumes "attached env req ms = Inr ams" and "ms \<noteq> []"
  shows "(fileData req = None \<longrightarrow> ams = ms)
         \<and> (\<forall>fd. fileData req = Some fd \<and> \<not> isText fd \<and> take 6 (mediaType fd) \<noteq> ''image/''
               \<longrightarrow> ams = ms)
         \<and> (\<forall>fd. fileData req = Some fd \<and> \<not> isText fd \<and> take 6 (mediaType fd) = ''image/''
               \<longrightarrow> ams = butlast ms @
                     [\<lparr>role = ''user'',
                       message_content = Parts
                         [ImagePart (mediaType fd) (base64 fd),
                          TextPart (message_content (last ms))]\<rparr>])
         \<and> (\<forall>fd. fileData req = Some fd \<and> isText fd
               \<longrightarrow> (\<exists>t. decode_text env (base64 fd) = Some t
                     \<and> ams = butlast ms @
                         [\<lparr>role = ''user'',
                           message_content = Parts
                             [TextPart (Str (''File contents of ''
                                  @ (case fileName fd of None \<Rightarrow> ''undefined'' | Some n \<Rightarrow> n)
                                  @ '':'' @ nl @ nl @ t)),
                              TextPart (message_content (last ms))]\<rparr>]))"
  using assms
  by (auto simp: attached_def attach_file_def anthropicMessages_id replace_last_def
      split: option.splits if_splits)

text \<open>
  Claim C5, as amended. When the portfolio fetch and the live-search fetch both fail, in a
  request that the file attachment does not reject, neither failure aborts the request:
  the model is called with the conversation exactly as the file attachment has left it.
  That is the input conversation when the request carries no \<^verbatim>\<open>fileData\<close> or a
  file that is neither text nor an image, and the input conversation with the attachment
  as its last turn when it carries an image or a text file; nothing of the portfolio or of
  the live search is added to the last turn. When that
  call succeeds, the response has status 200 and its content is the texts of the model's
  text blocks joined by blank lines, which is empty when the model's response has no text
  block.
\<close>

theorem both_fetches_fail:
  assumes "messages req = Some ms" and "model req \<noteq> []" and "attached env req ms = Inr ams"
    and "includeLiveData req"
    and "icfMapping req = Some icfData"
    and "firm_name icfData \<noteq> []" and "client_id icfData \<noteq> []"
    and "investment_banker_id icfData \<noteq> []"
    and "fetchCombinedCSVsByFirm env (client_id icfData) (investment_banker_id icfData)
           (firm_name icfData) ''MASTER_PROPOSED'' w = (Inl e1, w1)"
    and "ms \<noteq> []" and "\<not> blank (extractedUserQuery ms)"
    and "retryWithBackoff (perplexity_attempt env (extractedUserQuery ms))
           2 2000 8000 (Some retryable_codes) w1 = (Inl e2, w2)"
    and "retryWithBackoff (messages_create env (model req) ams)
           3 2000 15000 (Some retryable_codes) w2 = (Inr response_content, w3)"
  shows "generative_input env req w = (Inr ams, w2)
         \<and> (fileData req = None \<longrightarrow> ams = ms)
         \<and> (\<forall>fd. fileData req = Some fd \<and> \<not> isText fd \<and> take 6 (mediaType fd) \<noteq> ''image/''
               \<longrightarrow> ams = ms)
         \<and> (\<forall>fd. fileData req = Some fd \<and> \<not> isText fd \<and> take 6 (mediaType fd) = ''image/''
               \<longrightarrow> ams = butlast ms @
                     [\<lparr>role = ''user'',
                       message_content = Parts
                         [ImagePart (mediaType fd) (base64 fd),
                          TextPart (message_content (last ms))]\<rparr>])
         \<and> (\<forall>fd. fileData req = Some fd \<and> isText fd
               \<longrightarrow> (\<exists>t. decode_text env (base64 fd) = Some t
                     \<and> ams = butlast ms @
                         [\<lparr>role = ''user'',
                           message_content = Parts
                             [TextPart (Str (''File contents of ''
                                  @ (case fileName fd of None \<Rightarrow> ''undefined'' | Some n \<Rightarrow> n)
                                  @ '':'' @ nl @ nl @ t)),
                              TextPart (message_content (last ms))]\<rparr>]))
         \<and> POST env req w = (answer (JSON_parse env) response_content, w3)
         \<and> http_status (fst (POST env req w)) = 200
         \<and> (\<exists>b. http_body (fst (POST env req w)) = Success b
                  \<and> content b = fullTextContent response_content)
         \<and> (filter is_text_block response_content = []
              \<longrightarrow> fullTextContent response_content = [])"
proof -
  have s: "fetch_stockData env req w = (JNull, w1)"
    using assms(4-9) by (simp add: fetch_stockData_def)
  have p: "fetch_perplexityData env req ms w1 = (None, w2)"
    using assms(4,10-12) by (simp add: fetch_perplexityData_def)
  have g: "generative_input env req w = (Inr ams, w2)"
    using assms(1-3) fuse_without_sources [OF s p] by (simp add: generative_input_def)
  have r: "POST env req w = (answer (JSON_parse env) response_content, w3)"
    using g assms(13) by (simp add: POST_def)
  have t: "http_status (fst (POST env req w)) = 200
           \<and> (\<exists>b. http_body (fst (POST env req w)) = Success b
                    \<and> content b = fullTextContent response_content)
           \<and> (filter is_text_block response_content = []
                \<longrightarrow> fullTextContent response_content = [])"
    using r answer_status [of "JSON_parse env" response_content]
      answer_success [of "JSON_parse env" response_content] join_no_texts [of response_content]
    by simp
  from attached_result [OF assms(3,10)] g r t show ?thesis
    by (intro conjI) (simp_all only: simp_thms, blast+)
qed

lemma env_down_portfolio:
  "fetchCombinedCSVsByFirm (env_down bs) ''c1'' ''b1'' ''Acme'' ''MASTER_PROPOSED'' 0
     = (Inl (status_error ''Failed to fetch portfolio data: 503 - Service Unavailable'' 503), 3)"
proof -
  have a: "portfolio_attempt (env_down bs) ''c1'' ''b1'' ''Acme'' ''MASTER_PROPOSED'' n
             = (Inl (status_error ''Failed to fetch portfolio data: 503 - Service Unavailable'' 503),
                Suc n)" for n
    by (simp add: portfolio_attempt_def env_down_def reply_ok_def show_int_def show_nat.simps
        digit_char_def)
  have s: "statusCode (status_error m 503) = Some 503" for m
    by (simp add: statusCode_def num_or_def status_error_def)
  show ?thesis
    unfolding fetchCombinedCSVsByFirm_def retryWithBackoff_def
    apply (subst retry_loop.simps)
    apply (simp add: a s terminal_client_error_def not_retryable_def retryable_codes_def)
    apply (subst retry_loop.simps)
    apply (simp add: a s terminal_client_error_def not_retryable_def retryable_codes_def)
    apply (subst retry_loop.simps)
    apply (simp add: a s terminal_client_error_def not_retryable_def retryable_codes_def
        numeral_3_eq_3)
    done
qed

lemma env_down_perplexity:
  "retryWithBackoff (perplexity_attempt (env_down bs) ''Show my allocation'')
     2 2000 8000 (Some retryable_codes) 3 = (Inl (plain_error ''fetch failed''), 5)"
proof -
  have a: "perplexity_attempt (env_down bs) ''Show my allocation'' n
             = (Inl (plain_error ''fetch failed''), Suc n)" for n
    by (simp add: perplexity_attempt_def env_down_def)
  have s: "statusCode (plain_error m) = None" for m
    by (simp add: statusCode_def num_or_def plain_error_def)
  show ?thesis
    unfolding retryWithBackoff_def
    apply (subst retry_loop.simps)
    apply (simp add: a s terminal_client_error_def not_retryable_def)
    apply (subst retry_loop.simps)
    apply (simp add: a s terminal_client_error_def not_retryable_def eval_nat_numeral)
    done
qed

lemma env_down_model:
  "retryWithBackoff (messages_create (env_down bs) m ms) 3 2000 15000 (Some retryable_codes) 5
     = (Inr bs, 6)"
  unfolding retryWithBackoff_def
  by (subst retry_loop.simps) (simp add: env_down_def eval_nat_numeral)

text \<open>
  The theorem at a request for live data when the portfolio service answers 503 three
  times and the live search fails twice: the model gets the turn of the user as it was
  sent, and its text is the content of the response.
\<close>

theorem both_fetches_fail_witness:
  "generative_input (env_down [TextBlock ''Here is the analysis.'']) req_live 0
     = (Inr [\<lparr>role = ''user'', message_content = Str ''Show my allocation''\<rparr>], 5)
   \<and> POST (env_down [TextBlock ''Here is the analysis.'']) req_live 0
     = (\<lparr>http_status = 200,
         http_body = Success \<lparr>content = ''Here is the analysis.'', hasToolUse = False,
                              toolUse = None, chartData = None\<rparr>\<rparr>, 6)"
proof -
  let ?env = "env_down [TextBlock ''Here is the analysis.'']"
  let ?ms = "[\<lparr>role = ''user'', message_content = Str ''Show my allocation''\<rparr>]"
  have q: "extractedUserQuery ?ms = ''Show my allocation''"
    by (simp add: extractedUserQuery_def)
  have "generative_input ?env req_live 0 = (Inr ?ms, 5)
        \<and> POST ?env req_live 0
            = (answer (JSON_parse ?env) [TextBlock ''Here is the analysis.''], 6)"
    using both_fetches_fail [of req_live ?ms ?env ?ms acme 0 _ 3 _ 5
        "[TextBlock ''Here is the analysis.'']" 6]
      env_down_portfolio [of "[TextBlock ''Here is the analysis.'']"]
      env_down_perplexity [of "[TextBlock ''Here is the analysis.'']"]
      env_down_model [of "[TextBlock ''Here is the analysis.'']" "''claude''" ?ms]
    by (simp add: req_live_def acme_def attached_def anthropicMessages_def q blank_def)
  then show ?thesis
    by (simp add: answer_def toolUseContent_def fullTextContent_def)
qed

text \<open>
  Claim C5 as stated fails: both fetches fail, the call of the model succeeds and returns
  a tool invocation without any text, and the content of the response is empty. And when
  the request carries an image, the last turn that the model is called with is the
  attachment, not the original turn, although both fetches fail.
\<close>

theorem empty_content_counterexample:
  "POST (env_down [ToolUseBlock \<lparr>tool_id = ''toolu_1'', tool_name = ''generate_graph_data'',
                     tool_input = JObj [(''chartType'', JStr ''bar''), (''data'', JArr []),
                                        (''chartConfig'', JObj [])]\<rparr>]) req_live 0
     = (\<lparr>http_status = 200,
         http_body = Success
           \<lparr>content = [], hasToolUse = True,
            toolUse = Some \<lparr>tool_id = ''toolu_1'', tool_name = ''generate_graph_data'',
                            tool_input = JObj [(''chartType'', JStr ''bar''), (''data'', JArr []),
                                               (''chartConfig'', JObj [])]\<rparr>,
            chartData = Some (JObj [(''chartType'', JStr ''bar''), (''data'', JArr []),
                                    (''chartConfig'', JObj [])])\<rparr>\<rparr>, 6)
   \<and> generative_input (env_down []) req_live_image 0
     = (Inr [\<lparr>role = ''user'',
              message_content = Parts [ImagePart ''image/png'' ''iVBORw0KGgo='',
                                       TextPart (Str ''Show my allocation'')]\<rparr>], 5)"
proof -
  let ?bs = "[ToolUseBlock \<lparr>tool_id = ''toolu_1'', tool_name = ''generate_graph_data'',
                tool_input = JObj [(''chartType'', JStr ''bar''), (''data'', JArr []),
                                   (''chartConfig'', JObj [])]\<rparr>]"
  let ?ms = "[\<lparr>role = ''user'', message_content = Str ''Show my allocation''\<rparr>]"
  have q: "extractedUserQuery ?ms = ''Show my allocation''"
    by (simp add: extractedUserQuery_def)
  have s: "fetch_stockData (env_down ?bs) req_live 0 = (JNull, 3)"
    using env_down_portfolio [of ?bs] by (simp add: fetch_stockData_def req_live_def acme_def)
  have p: "fetch_perplexityData (env_down ?bs) req_live ?ms 3 = (None, 5)"
    using env_down_perplexity [of ?bs]
    by (simp add: fetch_perplexityData_def req_live_def q blank_def)
  have g: "generative_input (env_down ?bs) req_live 0 = (Inr ?ms, 5)"
    using fuse_without_sources [OF s p, of ?ms]
    by (simp add: generative_input_def req_live_def attached_def anthropicMessages_def)
  have "POST (env_down ?bs) req_live 0 = (answer (JSON_parse (env_down ?bs)) ?bs, 6)"
    using g env_down_model [of ?bs "''claude''" ?ms] by (simp add: POST_def req_live_def)
  then have r: "POST (env_down ?bs) req_live 0
     = (\<lparr>http_status = 200,
         http_body = Success
           \<lparr>content = [], hasToolUse = True,
            toolUse = Some \<lparr>tool_id = ''toolu_1'', tool_name = ''generate_graph_data'',
                            tool_input = JObj [(''chartType'', JStr ''bar''), (''data'', JArr []),
                                               (''chartConfig'', JObj [])]\<rparr>,
            chartData = Some (JObj [(''chartType'', JStr ''bar''), (''data'', JArr []),
                                    (''chartConfig'', JObj [])])\<rparr>\<rparr>, 6)"
    by (simp add: answer_def toolUseContent_def fullTextContent_def processToolResponse_def
        parse_data_def reshape_and_color_def check_structure_def with_colors_def
        Object_entries_def)
  have s': "fetch_stockData (env_down []) req_live_image 0 = (JNull, 3)"
    using env_down_portfolio [of "[]"]
    by (simp add: fetch_stockData_def req_live_image_def acme_def)
  have p': "fetch_perplexityData (env_down []) req_live_image ?ms 3 = (None, 5)"
    using env_down_perplexity [of "[]"]
    by (simp add: fetch_perplexityData_def req_live_image_def q blank_def)
  have "generative_input (env_down []) req_live_image 0
     = (Inr [\<lparr>role = ''user'',
              message_content = Parts [ImagePart ''image/png'' ''iVBORw0KGgo='',
                                       TextPart (Str ''Show my allocation'')]\<rparr>], 5)"
    using fuse_without_sources [OF s' p',
        of "[\<lparr>role = ''user'',
              message_content = Parts [ImagePart ''image/png'' ''iVBORw0KGgo='',
                                       TextPart (Str ''Show my allocation'')]\<rparr>]"]
    by (simp add: generative_input_def req_live_image_def attached_def attach_file_def
        anthropicMessages_def replace_last_def)
  with r show ?thesis by simp
qed

text \<open>
  Claim C6, as amended. For a valid request with \<^verbatim>\<open>includeLiveData = false\<close> no
  supplementary fetch is attempted (the world is left as it is) and the fusion step does
  not rewrite the last turn: what reaches the call of the model is the conversation after
  the file attachment alone. That is the input conversation, unchanged, when the request
  carries no \<^verbatim>\<open>fileData\<close>, and also when it carries a file with data that is neither
  text nor an image. For an image, and for a text file that can be decoded, the last turn
  of a conversation that is not empty is replaced by the attachment: the image or the
  text of the file, followed by the content of the original last turn as a text part. The
  request is rejected with status 400 when the file has no data, when a text file cannot
  be decoded, and when a text file or an image comes with an empty conversation.
\<close>

theorem no_live_data_conversation:
  assumes "messages req = Some ms" and "model req \<noteq> []" and "\<not> includeLiveData req"
  shows "generative_input env req w = (attached env req ms, w)
         \<and> (fileData req = None \<longrightarrow> generative_input env req w = (Inr ms, w))
         \<and> (\<forall>fd. fileData req = Some fd \<and> base64 fd \<noteq> [] \<and> \<not> isText fd
                  \<and> take 6 (mediaType fd) \<noteq> ''image/''
               \<longrightarrow> generative_input env req w = (Inr ms, w))
         \<and> (\<forall>fd. fileData req = Some fd \<and> base64 fd \<noteq> [] \<and> \<not> isText fd
                  \<and> take 6 (mediaType fd) = ''image/'' \<and> ms \<noteq> []
               \<longrightarrow> generative_input env req w
                     = (Inr (butlast ms @
                          [\<lparr>role = ''user'',
                            message_content = Parts
                              [ImagePart (mediaType fd) (base64 fd),
                               TextPart (message_content (last ms))]\<rparr>]), w))
         \<and> (\<forall>fd t. fileData req = Some fd \<and> base64 fd \<noteq> [] \<and> isText fd
                  \<and> decode_text env (base64 fd) = Some t \<and> ms \<noteq> []
               \<longrightarrow> generative_input env req w
                     = (Inr (butlast ms @
                          [\<lparr>role = ''user'',
                            message_content = Parts
                              [TextPart (Str (''File contents of ''
                                   @ (case fileName fd of None \<Rightarrow> ''undefined'' | Some n \<Rightarrow> n)
                                   @ '':'' @ nl @ nl @ t)),
                               TextPart (message_content (last ms))]\<rparr>]), w))
         \<and> (\<forall>fd. fileData req = Some fd
                  \<and> (base64 fd = [] \<or> (isText fd \<and> decode_text env (base64 fd) = None)
                       \<or> ((isText fd \<or> take 6 (mediaType fd) = ''image/'') \<and> ms = []))
               \<longrightarrow> (\<exists>r. generative_input env req w = (Inl r, w) \<and> http_status r = 400))"
proof -
  have g: "generative_input env req w = (attached env req ms, w)"
    using assms by (simp add: generative_input_def fuse_no_live_data split: sum.splits)
  have 1: "fileData req = None \<longrightarrow> attached env req ms = Inr ms"
    by (simp add: attached_def anthropicMessages_id)
  have 2: "attached env req ms = Inr ms"
    if "fileData req = Some fd" "base64 fd \<noteq> []" "\<not> isText fd"
      "take 6 (mediaType fd) \<noteq> ''image/''" for fd
    using that by (simp add: attached_def attach_file_def anthropicMessages_id)
  have 3: "attached env req ms
             = Inr (butlast ms @
                 [\<lparr>role = ''user'',
                   message_content = Parts
                     [ImagePart (mediaType fd) (base64 fd),
                      TextPart (message_content (last ms))]\<rparr>])"
    if "fileData req = Some fd" "base64 fd \<noteq> []" "\<not> isText fd"
      "take 6 (mediaType fd) = ''image/''" "ms \<noteq> []" for fd
    using that
    by (simp add: attached_def attach_file_def anthropicMessages_id replace_last_def)
  have 4: "attached env req ms
             = Inr (butlast ms @
                 [\<lparr>role = ''user'',
                   message_content = Parts
                     [TextPart (Str (''File contents of ''
                          @ (case fileName fd of None \<Rightarrow> ''undefined'' | Some n \<Rightarrow> n)
                          @ '':'' @ nl @ nl @ t)),
                      TextPart (message_content (last ms))]\<rparr>])"
    if "fileData req = Some fd" "base64 fd \<noteq> []" "isText fd"
      "decode_text env (base64 fd) = Some t" "ms \<noteq> []" for fd t
    using that
    by (simp add: attached_def attach_file_def anthropicMessages_id replace_last_def)
  have 5: "\<exists>r. attached env req ms = Inl r \<and> http_status r = 400"
    if "fileData req = Some fd"
      "base64 fd = [] \<or> (isText fd \<and> decode_text env (base64 fd) = None)
         \<or> ((isText fd \<or> take 6 (mediaType fd) = ''image/'') \<and> ms = [])" for fd
    using that
    by (auto simp: attached_def attach_file_def bad_request_def split: option.splits)
  show ?thesis
    using g 1 2 3 4 5 by auto
qed

text \<open>
  The theorem at a request without live data and without a file, and at one with a file
  that is neither text nor an image: the model gets the conversation as it was sent.
\<close>

theorem no_live_data_conversation_witness:
  "generative_input (env_down []) req_plain 0
     = (Inr [\<lparr>role = ''user'', message_content = Str ''Show my allocation''\<rparr>], 0)
   \<and> generative_input (env_down []) req_pdf 0
     = (Inr [\<lparr>role = ''user'', message_content = Str ''Summarise this report''\<rparr>], 0)"
  using no_live_data_conversation [of req_plain
      "[\<lparr>role = ''user'', message_content = Str ''Show my allocation''\<rparr>]" "env_down []" 0]
    no_live_data_conversation [of req_pdf
      "[\<lparr>role = ''user'', message_content = Str ''Summarise this report''\<rparr>]" "env_down []" 0]
  by (simp add: req_plain_def req_pdf_def attached_def attach_file_def anthropicMessages_def)

text \<open>
  Claim C6 as stated fails: for a valid request with \<^verbatim>\<open>includeLiveData = false\<close> that
  carries an image, the last turn that reaches the model is the image followed by the
  text, not the turn of the input conversation.
\<close>

theorem attached_image_counterexample:
  "messages req_image = Some [\<lparr>role = ''user'', message_content = Str ''What does this chart show?''\<rparr>]
   \<and> \<not> includeLiveData req_image
   \<and> generative_input (env_down []) req_image 0
     = (Inr [\<lparr>role = ''user'',
              message_content = Parts [ImagePart ''image/png'' ''iVBORw0KGgo='',
                                       TextPart (Str ''What does this chart show?'')]\<rparr>], 0)
   \<and> [\<lparr>role = ''user'',
        message_content = Parts [ImagePart ''image/png'' ''iVBORw0KGgo='',
                                 TextPart (Str ''What does this chart show?'')]\<rparr>]
     \<noteq> [\<lparr>role = ''user'', message_content = Str ''What does this chart show?''\<rparr>]"
  by (simp add: generative_input_def req_image_def attached_def attach_file_def
      anthropicMessages_def replace_last_def fuse_def fetch_stockData_def
      fetch_perplexityData_def)


text \<open>
  Claim C8. Let a request ask for live data with complete identifiers and a last turn
  whose text is not empty, and let the portfolio fetch succeed with a blob that
  serialises to more than 3000 characters. Then the last turn that reaches the model
  carries the enhanced prompt, whose portfolio section consists of the heading, exactly
  the first 3000 characters of the serialisation, and the closing rule; and the excerpt of
  any blob has at most 3000 characters. The blob is truthy, as every value is whose
  serialisation by \<^verbatim>\<open>JSON.stringify\<close> is that long; the serialiser is a parameter
  here, hence the hypothesis.
\<close>

theorem portfolio_excerpt:
  assumes "includeLiveData req" and "icfMapping req = Some icfData"
    and "firm_name icfData \<noteq> []" and "client_id icfData \<noteq> []"
    and "investment_banker_id icfData \<noteq> []"
    and "fetchCombinedCSVsByFirm env (client_id icfData) (investment_banker_id icfData)
           (firm_name icfData) ''MASTER_PROPOSED'' w = (Inr stockData, w1)"
    and "truthy stockData" and "3000 < length (stockData_text env stockData)"
    and "extractedUserQuery ms \<noteq> []"
    and "fetch_perplexityData env req ms w1 = (perplexityData, w2)"
  shows "fuse env req ms ams w
           = (update_last_message
                (''Original Query: '' @ extractedUserQuery ms @ nl @ nl
                 @ portfolio_heading (Some icfData)
                 @ take 3000 (stockData_text env stockData) @ nl @ ''---'' @ nl @ nl
                 @ search_section perplexityData
                 @ ''Please analyze the above query using:'' @ nl
                 @ join nl (instructions stockData perplexityData) @ nl @ nl
                 @ ''Incorporate all available information into your analysis and visualizations.'')
                ams, w2)
         \<and> length (take 3000 (stockData_text env stockData)) = 3000
         \<and> stockDataSummary env stockData = take 3000 (stockData_text env stockData)
         \<and> length (stockDataSummary env blob) \<le> 3000"
proof -
  have s: "fetch_stockData env req w = (stockData, w1)"
    using assms(1-6) by (simp add: fetch_stockData_def)
  have "fuse env req ms ams w
          = (update_last_message
               (enhancedPrompt env (Some icfData) (extractedUserQuery ms) stockData perplexityData)
               ams, w2)"
    using s assms(1,2,7,9,10) by (simp add: fuse_def)
  then show ?thesis
    using assms(7,8)
    by (simp add: enhancedPrompt_def portfolio_section_def stockDataSummary_def)
qed

text \<open>
  The theorem at a portfolio blob that serialises to 10000 characters: the prompt has
  3000 of them between the heading and the closing rule.
\<close>

theorem portfolio_excerpt_witness:
  "fuse (env_portfolio []) req_live
     [\<lparr>role = ''user'', message_content = Str ''Show my allocation''\<rparr>]
     [\<lparr>role = ''user'', message_content = Str ''Show my allocation''\<rparr>] 0
     = ([\<lparr>role = ''user'',
          message_content = Str
            (''Original Query: Show my allocation'' @ nl @ nl
             @ ''---'' @ nl
             @ ''**STOCK/PORTFOLIO DATA (Current Holdings & Performance for Main at Acme):**'' @ nl
             @ replicate 3000 (CHR ''x'') @ nl @ ''---'' @ nl @ nl
             @ ''Please analyze the above query using:'' @ nl
             @ ''- The current stock/portfolio data provided above'' @ nl @ nl
             @ ''Incorporate all available information into your analysis and visualizations.'')\<rparr>],
        3)"
proof -
  let ?ms = "[\<lparr>role = ''user'', message_content = Str ''Show my allocation''\<rparr>]"
  have a: "portfolio_attempt (env_portfolio []) ''c1'' ''b1'' ''Acme'' ''MASTER_PROPOSED'' n
             = (Inr (JObj [(''holdings'', JArr [])]), Suc n)" for n
    by (simp add: portfolio_attempt_def env_portfolio_def reply_ok_def)
  have f: "fetchCombinedCSVsByFirm (env_portfolio []) ''c1'' ''b1'' ''Acme'' ''MASTER_PROPOSED'' 0
             = (Inr (JObj [(''holdings'', JArr [])]), 1)"
    unfolding fetchCombinedCSVsByFirm_def retryWithBackoff_def
    by (subst retry_loop.simps) (simp add: a)
  have q: "extractedUserQuery ?ms = ''Show my allocation''"
    by (simp add: extractedUserQuery_def)
  have b: "perplexity_attempt (env_portfolio []) ''Show my allocation'' n
             = (Inl (plain_error ''fetch failed''), Suc n)" for n
    by (simp add: perplexity_attempt_def env_portfolio_def)
  have s: "statusCode (plain_error m) = None" for m
    by (simp add: statusCode_def num_or_def plain_error_def)
  have r: "retryWithBackoff (perplexity_attempt (env_portfolio []) ''Show my allocation'')
             2 2000 8000 (Some retryable_codes) 1 = (Inl (plain_error ''fetch failed''), 3)"
    unfolding retryWithBackoff_def
    apply (subst retry_loop.simps)
    apply (simp add: b s terminal_client_error_def not_retryable_def)
    apply (subst retry_loop.simps)
    apply (simp add: b s terminal_client_error_def not_retryable_def eval_nat_numeral)
    done
  have p: "fetch_perplexityData (env_portfolio []) req_live ?ms 1 = (None, 3)"
    using r by (simp add: fetch_perplexityData_def req_live_def q blank_def)
  have t: "stockData_text (env_portfolio []) (JObj [(''holdings'', JArr [])])
             = replicate 10000 (CHR ''x'')"
    by (simp add: stockData_text_def env_portfolio_def)
  from portfolio_excerpt [of req_live acme "env_portfolio []" 0
      "JObj [(''holdings'', JArr [])]" 1 ?ms None 3 ?ms] f p t q
  show ?thesis
    by (simp add: req_live_def acme_def update_last_message_def portfolio_heading_def
        search_section_def instructions_def)
qed

end
